theory Spec2Isabelle
  imports Complex_Main "HOL-Library.Multiset"
begin

section \<open>Errors raised by the Python code\<close>

text \<open>
  Every exception the modelled code can raise is a value of \<open>error\<close>; a function that may
  raise returns \<open>error + 'a\<close> with \<open>Inl\<close> for the exception. Floats are modelled as
  reals; where torch would produce \<open>nan\<close> or \<open>inf\<close> instead of raising (a division by
  zero), the model stops with \<open>NonFinite\<close>.
\<close>

datatype error =
    AssertionError | TypeError | ValueError | KeyError | IndexError
  | ZeroDivisionError | NotImplementedError | AttributeError | RuntimeError
  | NonFinite

definition bindE :: "error + 'a \<Rightarrow> ('a \<Rightarrow> error + 'b) \<Rightarrow> error + 'b" where
  "bindE r f = (case r of Inl e \<Rightarrow> Inl e | Inr x \<Rightarrow> f x)"

fun mapE :: "('a \<Rightarrow> error + 'b) \<Rightarrow> 'a list \<Rightarrow> error + 'b list" where
  "mapE f [] = Inr []"
| "mapE f (x # xs) =
     (case f x of
        Inl e \<Rightarrow> Inl e
      | Inr y \<Rightarrow> (case mapE f xs of Inl e \<Rightarrow> Inl e | Inr ys \<Rightarrow> Inr (y # ys)))"

section \<open>dataset/embeddings\_plus\_lexical\_knowledge.py\<close>

subsection \<open>Data\<close>

type_synonym entity = string

text \<open>A hyponymy record: the dict with the keys \<open>hyponym\<close>, \<open>hypernym\<close> and \<open>distance\<close>.
  Distances are Python floats; they are modelled as reals (no nan).\<close>

record hyponymy =
  hyponym :: entity
  hypernym :: entity
  distance :: real

type_synonym relation = "nat \<times> nat \<times> real"

text \<open>The batch dict. Keys that are only present on some paths are optional fields.\<close>

record batch =
  embedding :: "real list list"
  entity :: "entity list"
  hyponymy_relation :: "relation list"
  hyponymy_relation_raw :: "hyponymy list"
  entity_sampled :: "entity list option"
  non_hyponymy_relation :: "relation list option"
  non_hyponymy_relation_raw :: "hyponymy list option"

text \<open>The fields of \<open>WordEmbeddingsAndHyponymyDataset\<close> that the methods read.
  \<open>n_embeddings\<close> is \<open>len(word_embeddings_dataset)\<close>, \<open>n_hyponymy\<close> is
  \<open>len(hyponymy_dataset)\<close>.\<close>

record dataset =
  n_embeddings :: nat
  n_hyponymy :: nat
  embedding_batch_size :: int
  hyponymy_batch_size :: int
  verbose :: bool

datatype taxonomy = WordNetTaxonomy | BasicTaxonomy

text \<open>The additional fields of \<open>WordEmbeddingsAndHyponymyDatasetWithNonHyponymyRelation\<close>.\<close>

record nh_dataset = dataset +
  non_hyponymy_batch_size :: int
  non_hyponymy_multiple :: int
  non_hyponymy_relation_distance :: "real option"
  non_hyponymy_relation_target :: string
  exclude_reverse_hyponymy_from_non_hyponymy_relation :: bool
  limit_hyponym_candidates_within_minibatch :: bool
  split_hyponymy_and_non_hyponymy :: bool
  taxonomy :: taxonomy

subsection \<open>verify\_batch\_sizes\<close>

text \<open>The method only prints; the model returns the numbers it prints. Python floats are
  modelled as reals, and a division by zero raises \<open>ZeroDivisionError\<close> as it does for
  Python's \<open>int\<close> and \<open>float\<close>.\<close>

record report =
  n_embeddings_used_in_epoch :: real
  ratio :: real
  balanced_embedding_batch_size :: int
  balanced_hyponymy_batch_size :: int

definition coef_effective_samples :: real where
  "coef_effective_samples = 1 - 1 / exp 1"

definition verify_batch_sizes :: "'a dataset_scheme \<Rightarrow> error + report" where
  "verify_batch_sizes self =
     (if hyponymy_batch_size self = 0 then Inl ZeroDivisionError
      else
        let n_iteration = real (n_hyponymy self) / real_of_int (hyponymy_batch_size self);
            n_embeddings_sample_in_batch =
              embedding_batch_size self - 2 * hyponymy_batch_size self;
            used = coef_effective_samples * n_iteration
                     * real_of_int n_embeddings_sample_in_batch
        in if n_embeddings self = 0 then Inl ZeroDivisionError
           else if coef_effective_samples * n_iteration = 0 then Inl ZeroDivisionError
           else if real (n_embeddings self)
                     + 2 * coef_effective_samples * real (n_hyponymy self) = 0
                then Inl ZeroDivisionError
           else Inr \<lparr>
             n_embeddings_used_in_epoch = used,
             ratio = used / real (n_embeddings self),
             balanced_embedding_batch_size =
               \<lceil>real (n_embeddings self) / (coef_effective_samples * n_iteration)
                  + real_of_int (2 * hyponymy_batch_size self)\<rceil>,
             balanced_hyponymy_batch_size =
               \<lceil>real (n_hyponymy self) * real_of_int (embedding_batch_size self)
                    * coef_effective_samples
                  / (real (n_embeddings self)
                     + 2 * coef_effective_samples * real (n_hyponymy self))\<rceil> \<rparr>)"

text \<open>The override in the negative-sampling subclass.\<close>

definition nh_verify_batch_sizes :: "'a nh_dataset_scheme \<Rightarrow> error + report" where
  "nh_verify_batch_sizes self =
     (if hyponymy_batch_size self = 0 then Inl ZeroDivisionError
      else
        let n_iteration = real (n_hyponymy self) / real_of_int (hyponymy_batch_size self);
            n_embeddings_sample_in_batch =
              (if limit_hyponym_candidates_within_minibatch self
               then embedding_batch_size self - 2 * hyponymy_batch_size self
               else embedding_batch_size self - 2 * hyponymy_batch_size self
                      - non_hyponymy_batch_size self);
            multiplier =
              (if limit_hyponym_candidates_within_minibatch self then 2
               else 2 + non_hyponymy_multiple self);
            used = coef_effective_samples * n_iteration
                     * real_of_int n_embeddings_sample_in_batch
        in if n_embeddings self = 0 then Inl ZeroDivisionError
           else if n_iteration = 0 then Inl ZeroDivisionError
           else if real (n_embeddings self)
                     + real_of_int multiplier * coef_effective_samples
                         * real (n_hyponymy self) = 0
                then Inl ZeroDivisionError
           else
             let balanced_embeddings_sample_in_batch =
                   (real (n_embeddings self) / coef_effective_samples) / n_iteration
             in Inr \<lparr>
               n_embeddings_used_in_epoch = used,
               ratio = used / real (n_embeddings self),
               balanced_embedding_batch_size =
                 \<lceil>real_of_int (embedding_batch_size self)
                    - (real_of_int n_embeddings_sample_in_batch
                       - balanced_embeddings_sample_in_batch)\<rceil>,
               balanced_hyponymy_batch_size =
                 \<lfloor>real (n_hyponymy self) * real_of_int (embedding_batch_size self)
                      * coef_effective_samples
                    / (real (n_embeddings self)
                       + real_of_int multiplier * coef_effective_samples
                           * real (n_hyponymy self))\<rfloor> \<rparr>)"

subsection \<open>The constructors\<close>

text \<open>
  \<open>DataLoader(...)\<close> belongs to torch and may itself reject its arguments; its outcome for
  the given batch size is the parameter \<open>dataloader\<close> (\<open>None\<close>: it was built).
  \<open>super().__init__\<close> runs first in the subclass, with \<open>verbose=False\<close>.
\<close>

definition assertE :: "bool \<Rightarrow> error + unit" where
  "assertE c = (if c then Inr () else Inl AssertionError)"

definition init :: "(int \<Rightarrow> error option) \<Rightarrow> nat \<Rightarrow> nat \<Rightarrow> int \<Rightarrow> int \<Rightarrow> bool
    \<Rightarrow> error + dataset" where
  "init dataloader n_emb n_hypo embedding_batch_size' hyponymy_batch_size' verbose' =
     bindE (assertE (embedding_batch_size' \<ge> 2 * hyponymy_batch_size')) (\<lambda>_.
     bindE (case dataloader hyponymy_batch_size' of Some e \<Rightarrow> Inl e | None \<Rightarrow> Inr ()) (\<lambda>_.
     let self = \<lparr> n_embeddings = n_emb, n_hyponymy = n_hypo,
                   embedding_batch_size = embedding_batch_size',
                   hyponymy_batch_size = hyponymy_batch_size',
                   verbose = verbose' \<rparr>
     in bindE (if verbose' then bindE (verify_batch_sizes self) (\<lambda>_. Inr ()) else Inr ())
          (\<lambda>_. Inr self)))"

text \<open>The class of the \<open>hyponymy_dataset\<close> argument, as the \<open>isinstance\<close> tests see it.\<close>

datatype dataset_kind = WordNetHyponymyDataset | HyponymyDataset | OtherDataset

text \<open>
  \<open>non_hyponymy_batch_size\<close> is \<open>Optional[int]\<close> with default \<open>None\<close>. The first statement
  after \<open>super().__init__\<close> evaluates \<open>non_hyponymy_batch_size % hyponymy_batch_size\<close>, which
  raises \<open>TypeError\<close> for \<open>None\<close> and \<open>ZeroDivisionError\<close> for a zero divisor; the later
  substitution of \<open>hyponymy_batch_size\<close> for \<open>None\<close> is therefore never reached with
  \<open>None\<close>. The taxonomy is the last field to be assigned, after the optional call of
  \<open>verify_batch_sizes\<close>, which does not read it.
\<close>

definition nh_self :: "nat \<Rightarrow> nat \<Rightarrow> int \<Rightarrow> int \<Rightarrow> int \<Rightarrow> real option \<Rightarrow> string
    \<Rightarrow> bool \<Rightarrow> bool \<Rightarrow> bool \<Rightarrow> bool \<Rightarrow> taxonomy \<Rightarrow> nh_dataset" where
  "nh_self n_emb n_hypo embedding_batch_size' hyponymy_batch_size' nhbs
       non_hyponymy_relation_distance' non_hyponymy_relation_target'
       exclude_reverse' limit' split' verbose' t =
     \<lparr> n_embeddings = n_emb, n_hyponymy = n_hypo,
       embedding_batch_size = embedding_batch_size',
       hyponymy_batch_size = hyponymy_batch_size',
       verbose = verbose',
       non_hyponymy_batch_size = nhbs,
       non_hyponymy_multiple = nhbs div hyponymy_batch_size',
       non_hyponymy_relation_distance = non_hyponymy_relation_distance',
       non_hyponymy_relation_target = non_hyponymy_relation_target',
       exclude_reverse_hyponymy_from_non_hyponymy_relation = exclude_reverse',
       limit_hyponym_candidates_within_minibatch = limit',
       split_hyponymy_and_non_hyponymy = split',
       taxonomy = t \<rparr>"

definition nh_init :: "(int \<Rightarrow> error option) \<Rightarrow> dataset_kind \<Rightarrow> nat \<Rightarrow> nat \<Rightarrow> int \<Rightarrow> int
    \<Rightarrow> int option \<Rightarrow> real option \<Rightarrow> string \<Rightarrow> bool \<Rightarrow> bool \<Rightarrow> bool \<Rightarrow> bool
    \<Rightarrow> error + nh_dataset" where
  "nh_init dataloader kind n_emb n_hypo embedding_batch_size' hyponymy_batch_size'
       non_hyponymy_batch_size' non_hyponymy_relation_distance'
       non_hyponymy_relation_target' exclude_reverse' limit' split' verbose' =
     bindE (init dataloader n_emb n_hypo embedding_batch_size' hyponymy_batch_size' False) (\<lambda>_.
     bindE (case non_hyponymy_batch_size' of None \<Rightarrow> Inl TypeError | Some n \<Rightarrow> Inr n) (\<lambda>nhbs.
     bindE (if hyponymy_batch_size' = 0 then Inl ZeroDivisionError
            else assertE (nhbs mod hyponymy_batch_size' = 0)) (\<lambda>_.
     bindE (if \<not> limit'
            then assertE (embedding_batch_size' \<ge> 2 * hyponymy_batch_size' + nhbs)
            else Inr ()) (\<lambda>_.
     bindE (assertE (non_hyponymy_relation_target'
                       \<in> set [''hyponym'', ''hypernym'', ''both''])) (\<lambda>_.
     let self = nh_self n_emb n_hypo embedding_batch_size' hyponymy_batch_size' nhbs
                  non_hyponymy_relation_distance' non_hyponymy_relation_target'
                  exclude_reverse' limit' split' verbose'
     in
     bindE (if non_hyponymy_relation_target' = ''both''
            then assertE ((nhbs div hyponymy_batch_size') mod 2 = 0) else Inr ()) (\<lambda>_.
     bindE (if verbose'
            then bindE (nh_verify_batch_sizes (self BasicTaxonomy)) (\<lambda>_. Inr ())
            else Inr ()) (\<lambda>_.
     case kind of
       WordNetHyponymyDataset \<Rightarrow> Inr (self WordNetTaxonomy)
     | HyponymyDataset \<Rightarrow> Inr (self BasicTaxonomy)
     | OtherDataset \<Rightarrow> Inl NotImplementedError)))))))"

subsection \<open>Splitting the relations of a batch\<close>

fun split_loop :: "(relation \<times> hyponymy) list
    \<Rightarrow> relation list \<Rightarrow> hyponymy list \<Rightarrow> relation list \<Rightarrow> hyponymy list
    \<Rightarrow> relation list \<times> hyponymy list \<times> relation list \<times> hyponymy list" where
  "split_loop [] lst_hyponymy_relation lst_hyponymy_relation_raw
       lst_non_hyponymy_relation lst_non_hyponymy_relation_raw =
     (lst_hyponymy_relation, lst_hyponymy_relation_raw,
      lst_non_hyponymy_relation, lst_non_hyponymy_relation_raw)"
| "split_loop ((relation, relation_raw) # rest) lst_hyponymy_relation
       lst_hyponymy_relation_raw lst_non_hyponymy_relation lst_non_hyponymy_relation_raw =
     (let distance = snd (snd relation) in
      if distance > 0
      then split_loop rest (lst_hyponymy_relation @ [relation])
             (lst_hyponymy_relation_raw @ [relation_raw])
             lst_non_hyponymy_relation lst_non_hyponymy_relation_raw
      else split_loop rest lst_hyponymy_relation lst_hyponymy_relation_raw
             (lst_non_hyponymy_relation @ [relation])
             (lst_non_hyponymy_relation_raw @ [relation_raw]))"

definition split_hyponymy_samples_and_non_hyponymy_samples :: "batch \<Rightarrow> batch" where
  "split_hyponymy_samples_and_non_hyponymy_samples b =
     (case split_loop (zip (hyponymy_relation b) (hyponymy_relation_raw b)) [] [] [] [] of
        (h, hr, n, nr) \<Rightarrow>
          b\<lparr> hyponymy_relation := h, hyponymy_relation_raw := hr,
             non_hyponymy_relation := Some n, non_hyponymy_relation_raw := Some nr \<rparr>)"

subsection \<open>External collaborators\<close>

text \<open>
  The embedding source, the taxonomy and the random number generators are not part of the
  modelled code. They are parameters: a record of functions. Random draws thread an
  explicit generator state of an arbitrary type \<open>'g\<close>, so that two calls with the same
  arguments may return different results.
  \<^item> \<open>is_encodable\<close>, \<open>index_to_entity\<close>: the methods of the word embeddings dataset;
  \<^item> \<open>get_embedding t\<close>: \<open>word_embeddings_dataset[t]["embedding"]\<close>;
  \<^item> \<open>random_choice g n k\<close>: \<open>np.random.choice(range(n), size=k, replace=False)\<close>;
  \<^item> \<open>list_of_set\<close>: the order in which Python iterates a set (see below);
  \<^item> \<open>sample_random_hyponyms g entity candidates size exclude_hypernyms\<close> and
    \<open>sample_random_hypernyms\<close>: the methods of \<open>BasicTaxonomy\<close>, returning
    \<open>(hypernym, hyponym, distance)\<close> tuples.
\<close>

record 'g collaborators =
  is_encodable :: "entity \<Rightarrow> bool"
  index_to_entity :: "nat \<Rightarrow> error + entity"
  get_embedding :: "entity \<Rightarrow> error + real list"
  random_choice :: "'g \<Rightarrow> nat \<Rightarrow> int \<Rightarrow> (error + nat list) \<times> 'g"
  list_of_set :: "entity list \<Rightarrow> entity list"
  sample_random_hyponyms :: "'g \<Rightarrow> entity \<Rightarrow> entity list option \<Rightarrow> int \<Rightarrow> bool
      \<Rightarrow> (error + (entity \<times> entity \<times> real) list) \<times> 'g"
  sample_random_hypernyms :: "'g \<Rightarrow> entity \<Rightarrow> entity list option \<Rightarrow> int \<Rightarrow> bool
      \<Rightarrow> (error + (entity \<times> entity \<times> real) list) \<times> 'g"

subsection \<open>Python sets, dicts and slices\<close>

text \<open>
  A Python set is modelled by the duplicate-free list of its members; \<open>len\<close> is the
  length of that list. \<open>list(s)\<close> enumerates the members in an order Python does not
  specify: the model applies the collaborator \<open>list_of_set\<close> to the members, which is
  expected to return them rearranged (\<open>set_order_ok\<close>).
\<close>

definition set_add :: "'a \<Rightarrow> 'a list \<Rightarrow> 'a list" where
  "set_add x s = (if x \<in> set s then s else s @ [x])"

definition set_update :: "'a list \<Rightarrow> 'a list \<Rightarrow> 'a list" where
  "set_update s xs = foldl (\<lambda>s x. set_add x s) s xs"

definition set_order_ok :: "'g collaborators \<Rightarrow> bool" where
  "set_order_ok ext =
     (\<forall>s. distinct s \<longrightarrow> distinct (list_of_set ext s) \<and> set (list_of_set ext s) = set s)"

text \<open>\<open>{token: idx for idx, token in enumerate(lst_tokens)}\<close>: a later entry overwrites an
  earlier one with the same key.\<close>

definition dict_of_enumerate :: "'a list \<Rightarrow> ('a \<rightharpoonup> nat)" where
  "dict_of_enumerate lst =
     foldl (\<lambda>m (idx, token). m(token \<mapsto> idx)) Map.empty (zip [0..<length lst] lst)"

definition dict_get :: "('a \<rightharpoonup> nat) \<Rightarrow> 'a \<Rightarrow> error + nat" where
  "dict_get m k = (case m k of None \<Rightarrow> Inl KeyError | Some v \<Rightarrow> Inr v)"

text \<open>\<open>xs[a:b]\<close> for integers \<open>a\<close>, \<open>b\<close> on a sequence: a negative bound counts from the
  end, bounds are clipped to the sequence. The hyponymy dataset is read through this
  slice only.\<close>

definition py_slice :: "'a list \<Rightarrow> int \<Rightarrow> int \<Rightarrow> 'a list" where
  "py_slice xs a b =
     (let n = int (length xs);
          lo = (if a < 0 then max (a + n) 0 else min a n);
          hi = (if b < 0 then max (b + n) 0 else min b n)
      in take (nat (hi - lo)) (drop (nat lo) xs))"

text \<open>\<open>np.stack\<close> of a list of vectors: it refuses an empty list and vectors of different
  lengths.\<close>

definition np_stack :: "real list list \<Rightarrow> error + real list list" where
  "np_stack vs =
     (case vs of
        [] \<Rightarrow> Inl ValueError
      | v # _ \<Rightarrow> if list_all (\<lambda>w. length w = length v) vs then Inr vs else Inl ValueError)"

subsection \<open>Building a batch\<close>

definition is_encodable_all :: "'g collaborators \<Rightarrow> entity list \<Rightarrow> bool" where
  "is_encodable_all ext tokens = list_all (is_encodable ext) tokens"

text \<open>The first loop of \<open>_create_batch_from_hyponymy_samples\<close>: the tokens of the pairs.\<close>

definition tokens_of_samples :: "hyponymy list \<Rightarrow> entity list" where
  "tokens_of_samples batch_hyponymy =
     foldl (\<lambda>set_tokens h. set_add (hypernym h) (set_add (hyponym h) set_tokens))
       [] batch_hyponymy"

text \<open>The filler tokens: \<open>lst_tokens_from_embeddings\<close>.\<close>

definition sample_fillers :: "'g collaborators \<Rightarrow> 'a dataset_scheme \<Rightarrow> 'g \<Rightarrow> entity list
    \<Rightarrow> (error + entity list) \<times> 'g" where
  "sample_fillers ext self g set_tokens =
     (let n_diff = embedding_batch_size self - int (length set_tokens) in
      if n_diff > 0
      then (case random_choice ext g (n_embeddings self) n_diff of
              (lst_index, g') \<Rightarrow> (bindE lst_index (mapE (index_to_entity ext)), g'))
      else (Inr [], g))"

text \<open>The last loop: the relations as index triples \<open>(idx_hyper, idx_hypo, distance)\<close>.\<close>

definition index_relation :: "(entity \<rightharpoonup> nat) \<Rightarrow> hyponymy \<Rightarrow> error + relation" where
  "index_relation token_to_index h =
     bindE (dict_get token_to_index (hyponym h)) (\<lambda>idx_hypo.
     bindE (dict_get token_to_index (hypernym h)) (\<lambda>idx_hyper.
     Inr (idx_hyper, idx_hypo, distance h)))"

definition assemble_batch :: "'g collaborators \<Rightarrow> 'a dataset_scheme \<Rightarrow> hyponymy list
    \<Rightarrow> entity list \<Rightarrow> entity list \<Rightarrow> error + batch" where
  "assemble_batch ext self batch_hyponymy set_tokens lst_tokens_from_embeddings =
     (let lst_tokens = list_of_set ext set_tokens;
          token_to_index = dict_of_enumerate lst_tokens
      in bindE (bindE (mapE (get_embedding ext) lst_tokens) np_stack) (\<lambda>mat_embeddings.
         bindE (mapE (index_relation token_to_index) batch_hyponymy) (\<lambda>lst_hyponymy_relation.
         Inr \<lparr> embedding = mat_embeddings,
               entity = lst_tokens,
               hyponymy_relation = lst_hyponymy_relation,
               hyponymy_relation_raw = batch_hyponymy,
               entity_sampled =
                 (if verbose self then Some lst_tokens_from_embeddings else None),
               non_hyponymy_relation = None,
               non_hyponymy_relation_raw = None \<rparr>)))"

definition create_batch_from_hyponymy_samples :: "'g collaborators \<Rightarrow> 'a dataset_scheme \<Rightarrow> 'g
    \<Rightarrow> hyponymy list \<Rightarrow> (error + batch) \<times> 'g" where
  "create_batch_from_hyponymy_samples ext self g batch_hyponymy =
     (let set_tokens = tokens_of_samples batch_hyponymy in
      case sample_fillers ext self g set_tokens of
        (Inl e, g') \<Rightarrow> (Inl e, g')
      | (Inr lst_tokens_from_embeddings, g') \<Rightarrow>
          (assemble_batch ext self batch_hyponymy
             (set_update set_tokens lst_tokens_from_embeddings)
             lst_tokens_from_embeddings, g'))"

subsection \<open>Negative samples\<close>

definition non_hyponymy_record :: "real option \<Rightarrow> entity \<times> entity \<times> real \<Rightarrow> hyponymy" where
  "non_hyponymy_record fixed_distance tup =
     (case tup of (hypernym', hyponym', distance') \<Rightarrow>
        \<lparr> hyponym = hyponym', hypernym = hypernym',
          distance = (case fixed_distance of None \<Rightarrow> distance' | Some d \<Rightarrow> d) \<rparr>)"

text \<open>The loop over the pairs of the batch in
  \<open>_create_non_hyponymy_samples_from_hyponymy_samples\<close>; \<open>acc\<close> is
  \<open>lst_non_hyponymy_samples\<close>.\<close>

fun non_hyponymy_loop :: "'g collaborators \<Rightarrow> 'a nh_dataset_scheme \<Rightarrow> entity list option \<Rightarrow> int
    \<Rightarrow> 'g \<Rightarrow> hyponymy list \<Rightarrow> hyponymy list \<Rightarrow> (error + hyponymy list) \<times> 'g" where
  "non_hyponymy_loop ext self set_candidates size_per_sample g [] acc = (Inr acc, g)"
| "non_hyponymy_loop ext self set_candidates size_per_sample g (h # rest) acc =
     (case taxonomy self of
        WordNetTaxonomy \<Rightarrow> (Inl NotImplementedError, g)
      | BasicTaxonomy \<Rightarrow>
          (case (if non_hyponymy_relation_target self \<in> set [''hyponym'', ''both'']
                 then sample_random_hyponyms ext g (hypernym h) set_candidates size_per_sample
                        (exclude_reverse_hyponymy_from_non_hyponymy_relation self)
                 else (Inr [], g)) of
             (Inl e, g1) \<Rightarrow> (Inl e, g1)
           | (Inr swap_hypo, g1) \<Rightarrow>
               (case (if non_hyponymy_relation_target self \<in> set [''hypernym'', ''both'']
                      then sample_random_hypernyms ext g1 (hyponym h) set_candidates
                             size_per_sample
                             (exclude_reverse_hyponymy_from_non_hyponymy_relation self)
                      else (Inr [], g1)) of
                  (Inl e, g2) \<Rightarrow> (Inl e, g2)
                | (Inr swap_hyper, g2) \<Rightarrow>
                    non_hyponymy_loop ext self set_candidates size_per_sample g2 rest
                      (acc @ map (non_hyponymy_record (non_hyponymy_relation_distance self))
                               (swap_hypo @ swap_hyper)))))"

definition create_non_hyponymy_samples_from_hyponymy_samples :: "'g collaborators
    \<Rightarrow> 'a nh_dataset_scheme \<Rightarrow> 'g \<Rightarrow> hyponymy list \<Rightarrow> int \<Rightarrow> (error + hyponymy list) \<times> 'g" where
  "create_non_hyponymy_samples_from_hyponymy_samples ext self g batch_hyponymy size_per_sample =
     (let set_candidates =
            (if limit_hyponym_candidates_within_minibatch self
             then Some (tokens_of_samples batch_hyponymy) else None)
      in non_hyponymy_loop ext self set_candidates size_per_sample g batch_hyponymy [])"

subsection \<open>Indexing and iterating the datasets\<close>

text \<open>The part of \<open>__getitem__\<close> and \<open>__iter__\<close> after a non-empty chunk has been found;
  \<open>nh_\<close> marks the negative-sampling subclass.\<close>

definition nh_batch_of_chunk :: "'g collaborators \<Rightarrow> 'a nh_dataset_scheme \<Rightarrow> 'g \<Rightarrow> hyponymy list
    \<Rightarrow> (error + batch) \<times> 'g" where
  "nh_batch_of_chunk ext self g batch_hyponymy =
     (let size_per_sample =
            (if non_hyponymy_relation_target self = ''both''
             then non_hyponymy_multiple self div 2 else non_hyponymy_multiple self)
      in case create_non_hyponymy_samples_from_hyponymy_samples ext self g batch_hyponymy
                size_per_sample of
           (Inl e, g1) \<Rightarrow> (Inl e, g1)
         | (Inr batch_non_hyponymy, g1) \<Rightarrow>
             (case create_batch_from_hyponymy_samples ext self g1
                     (batch_hyponymy @ batch_non_hyponymy) of
                (Inl e, g2) \<Rightarrow> (Inl e, g2)
              | (Inr batch, g2) \<Rightarrow>
                  (Inr (if split_hyponymy_and_non_hyponymy self
                        then split_hyponymy_samples_and_non_hyponymy_samples batch
                        else batch), g2)))"

definition encodable_samples :: "'g collaborators \<Rightarrow> hyponymy list \<Rightarrow> hyponymy list" where
  "encodable_samples ext batch_hyponymy_b =
     filter (\<lambda>sample. is_encodable_all ext [hyponym sample, hypernym sample]) batch_hyponymy_b"

text \<open>\<open>__getitem__\<close>: the \<open>while True\<close> loop moves to the next chunk as long as the
  filtered chunk is empty, and does not end when no later chunk has an encodable pair;
  \<open>None\<close> is the loop that never returns.\<close>

partial_function (option) getitem :: "'g collaborators \<Rightarrow> 'a dataset_scheme \<Rightarrow> hyponymy list
    \<Rightarrow> 'g \<Rightarrow> int \<Rightarrow> ((error + batch) \<times> 'g) option" where
  "getitem ext self hyponymy_dataset g idx =
     (let n_idx_min = hyponymy_batch_size self * idx;
          n_idx_max = hyponymy_batch_size self * (idx + 1);
          batch_hyponymy = encodable_samples ext (py_slice hyponymy_dataset n_idx_min n_idx_max)
      in if length batch_hyponymy = 0
         then getitem ext self hyponymy_dataset g (idx + 1)
         else Some (create_batch_from_hyponymy_samples ext self g batch_hyponymy))"

partial_function (option) nh_getitem :: "'g collaborators \<Rightarrow> 'a nh_dataset_scheme
    \<Rightarrow> hyponymy list \<Rightarrow> 'g \<Rightarrow> int \<Rightarrow> ((error + batch) \<times> 'g) option" where
  "nh_getitem ext self hyponymy_dataset g idx =
     (let n_idx_min = hyponymy_batch_size self * idx;
          n_idx_max = hyponymy_batch_size self * (idx + 1);
          batch_hyponymy = encodable_samples ext (py_slice hyponymy_dataset n_idx_min n_idx_max)
      in if length batch_hyponymy = 0
         then nh_getitem ext self hyponymy_dataset g (idx + 1)
         else Some (nh_batch_of_chunk ext self g batch_hyponymy))"

declare getitem.simps [code]

declare nh_getitem.simps [code]

text \<open>\<open>__iter__\<close>: a generator over the chunks the \<open>DataLoader\<close> delivers (a parameter,
  the list \<open>chunks\<close>). The model returns the batches yielded so far, and the exception
  that ended the iteration, if one did.\<close>

fun iter_loop :: "'g collaborators \<Rightarrow> 'a dataset_scheme \<Rightarrow> 'g \<Rightarrow> hyponymy list list
    \<Rightarrow> batch list \<Rightarrow> (batch list \<times> error option) \<times> 'g" where
  "iter_loop ext self g [] yielded = ((yielded, None), g)"
| "iter_loop ext self g (batch_hyponymy_b # chunks) yielded =
     (let batch_hyponymy = encodable_samples ext batch_hyponymy_b in
      if length batch_hyponymy = 0 then iter_loop ext self g chunks yielded
      else case create_batch_from_hyponymy_samples ext self g batch_hyponymy of
             (Inl e, g') \<Rightarrow> ((yielded, Some e), g')
           | (Inr batch, g') \<Rightarrow> iter_loop ext self g' chunks (yielded @ [batch]))"

fun nh_iter_loop :: "'g collaborators \<Rightarrow> 'a nh_dataset_scheme \<Rightarrow> 'g \<Rightarrow> hyponymy list list
    \<Rightarrow> batch list \<Rightarrow> (batch list \<times> error option) \<times> 'g" where
  "nh_iter_loop ext self g [] yielded = ((yielded, None), g)"
| "nh_iter_loop ext self g (batch_hyponymy_b # chunks) yielded =
     (let batch_hyponymy = encodable_samples ext batch_hyponymy_b in
      if length batch_hyponymy = 0 then nh_iter_loop ext self g chunks yielded
      else case nh_batch_of_chunk ext self g batch_hyponymy of
             (Inl e, g') \<Rightarrow> ((yielded, Some e), g')
           | (Inr batch, g') \<Rightarrow> nh_iter_loop ext self g' chunks (yielded @ [batch]))"

text \<open>The batch invariant: the entities are distinct and every index of a relation
  triple, in either relation list, is below the number of entities.\<close>

definition relations_in_range :: "nat \<Rightarrow> relation list \<Rightarrow> bool" where
  "relations_in_range n rs = list_all (\<lambda>r. fst r < n \<and> fst (snd r) < n) rs"

definition batch_invariant :: "batch \<Rightarrow> bool" where
  "batch_invariant b =
     (distinct (entity b)
      \<and> relations_in_range (length (entity b)) (hyponymy_relation b)
      \<and> (case non_hyponymy_relation b of
            None \<Rightarrow> True
          | Some rs \<Rightarrow> relations_in_range (length (entity b)) rs))"

subsection \<open>A small instance of the collaborators\<close>

text \<open>
  A vocabulary of three entities with one-dimensional embeddings. The random draws are
  fixed to outcomes the real generators can produce: \<open>random_choice\<close> returns the first
  \<open>k\<close> indices (distinct, below \<open>n\<close>; numpy refuses \<open>k > n\<close>), and the taxonomy
  proposes the entity \<open>c\<close> as the unrelated partner, at distance \<open>-1\<close>.
\<close>

definition example_vocabulary :: "entity list" where
  "example_vocabulary = [''a'', ''b'', ''c'']"

definition example_collaborators :: "unit collaborators" where
  "example_collaborators =
     \<lparr> is_encodable = (\<lambda>t. t \<in> set example_vocabulary),
       index_to_entity =
         (\<lambda>i. if i < length example_vocabulary then Inr (example_vocabulary ! i)
              else Inl IndexError),
       get_embedding = (\<lambda>t. if t \<in> set example_vocabulary then Inr [1] else Inl KeyError),
       random_choice =
         (\<lambda>g n k. (if k \<le> int n then Inr (take (nat k) [0..<n]) else Inl ValueError, g)),
       list_of_set = (\<lambda>s. s),
       sample_random_hyponyms =
         (\<lambda>g e candidates size exclude. (Inr (if 1 \<le> size then [(e, ''c'', - 1)] else []), g)),
       sample_random_hypernyms =
         (\<lambda>g e candidates size exclude. (Inr (if 1 \<le> size then [(''c'', e, - 1)] else []), g)) \<rparr>"

definition example_dataset :: dataset where
  "example_dataset =
     \<lparr> n_embeddings = 3, n_hyponymy = 1, embedding_batch_size = 3,
       hyponymy_batch_size = 1, verbose = False \<rparr>"

definition example_hyponymy_dataset :: "hyponymy list" where
  "example_hyponymy_dataset =
     [\<lparr> hyponym = ''zebra'', hypernym = ''a'', distance = 2 \<rparr>,
      \<lparr> hyponym = ''a'', hypernym = ''b'', distance = 1 \<rparr>]"

section \<open>Tensors\<close>

text \<open>
  A tensor is its shape and the function from index lists to values; values at indices
  outside the shape are never read. Only the torch operations that the loss module calls
  are modelled, with the dimension arguments it passes (always the last dimension,
  except for the selection of batch rows). Data types and devices are left out, and the
  values are real numbers: the arithmetic is exact, where torch rounds to the float type
  of the tensor. The statements about these functions are therefore about shapes, about
  the structure of the computation, and about values at inputs whose intermediate
  results are small integers, which every float type represents exactly.
\<close>

record tensor =
  dims :: "nat list"
  elem :: "nat list \<Rightarrow> real"

definition scalar :: "real \<Rightarrow> tensor" where
  "scalar x = \<lparr> dims = [], elem = (\<lambda>_. x) \<rparr>"

text \<open>\<open>torch.tensor(xs)\<close> for a Python list of numbers.\<close>

definition vec :: "real list \<Rightarrow> tensor" where
  "vec xs = \<lparr> dims = [length xs], elem = (\<lambda>idx. case idx of [] \<Rightarrow> 0 | i # _ \<Rightarrow> xs ! i) \<rparr>"

definition full :: "nat list \<Rightarrow> real \<Rightarrow> tensor" where
  "full ds x = \<lparr> dims = ds, elem = (\<lambda>_. x) \<rparr>"

definition arange :: "nat \<Rightarrow> tensor" where
  "arange n = \<lparr> dims = [n], elem = (\<lambda>idx. case idx of [] \<Rightarrow> 0 | i # _ \<Rightarrow> real i) \<rparr>"

text \<open>Elementwise operations with a Python number, and \<open>torch.clamp\<close>.\<close>

definition tmap :: "(real \<Rightarrow> real) \<Rightarrow> tensor \<Rightarrow> tensor" where
  "tmap f t = \<lparr> dims = dims t, elem = (\<lambda>idx. f (elem t idx)) \<rparr>"

definition clamp :: "tensor \<Rightarrow> real \<Rightarrow> real \<Rightarrow> tensor" where
  "clamp t lo hi = tmap (\<lambda>x. min (max x lo) hi) t"

text \<open>Broadcasting: shapes are aligned at the last dimension; two sizes are compatible
  when they are equal or one of them is 1.\<close>

fun broadcast_rev :: "nat list \<Rightarrow> nat list \<Rightarrow> error + nat list" where
  "broadcast_rev [] ns = Inr ns"
| "broadcast_rev (m # ms) [] = Inr (m # ms)"
| "broadcast_rev (m # ms) (n # ns) =
     (if m = n \<or> n = 1 then bindE (broadcast_rev ms ns) (\<lambda>r. Inr (m # r))
      else if m = 1 then bindE (broadcast_rev ms ns) (\<lambda>r. Inr (n # r))
      else Inl RuntimeError)"

definition broadcast_dims :: "nat list \<Rightarrow> nat list \<Rightarrow> error + nat list" where
  "broadcast_dims ms ns = bindE (broadcast_rev (rev ms) (rev ns)) (\<lambda>r. Inr (rev r))"

text \<open>The index of an operand that a result index reads: leading dimensions the operand
  does not have are dropped, and a dimension of size 1 is read at 0.\<close>

definition bproj :: "nat list \<Rightarrow> nat list \<Rightarrow> nat list" where
  "bproj ds idx = map2 (\<lambda>n i. if n = 1 then 0 else i) ds (drop (length idx - length ds) idx)"

definition tbin :: "(real \<Rightarrow> real \<Rightarrow> real) \<Rightarrow> tensor \<Rightarrow> tensor \<Rightarrow> error + tensor" where
  "tbin f a b =
     bindE (broadcast_dims (dims a) (dims b)) (\<lambda>ds.
     Inr \<lparr> dims = ds,
           elem = (\<lambda>idx. f (elem a (bproj (dims a) idx)) (elem b (bproj (dims b) idx))) \<rparr>)"

definition tmul :: "tensor \<Rightarrow> tensor \<Rightarrow> error + tensor" where
  "tmul = tbin (\<lambda>x y. x * y)"

definition tsub :: "tensor \<Rightarrow> tensor \<Rightarrow> error + tensor" where
  "tsub = tbin (\<lambda>x y. x - y)"

definition tadd :: "tensor \<Rightarrow> tensor \<Rightarrow> error + tensor" where
  "tadd = tbin (\<lambda>x y. x + y)"


text \<open>\<open>torch.index_select(t, dim=-1, index=torch.tensor(i))\<close>: the result keeps the last
  dimension, with size 1.\<close>

definition index_select_last :: "tensor \<Rightarrow> nat \<Rightarrow> error + tensor" where
  "index_select_last t i =
     (case rev (dims t) of
        [] \<Rightarrow> if i = 0 then Inr t else Inl IndexError
      | n # _ \<Rightarrow>
          if i < n
          then Inr \<lparr> dims = butlast (dims t) @ [1],
                     elem = (\<lambda>idx. elem t (butlast idx @ [i])) \<rparr>
          else Inl IndexError)"

text \<open>\<open>torch.index_select(t, dim=0, index=torch.tensor(idxs))\<close>.\<close>

definition index_select_first :: "tensor \<Rightarrow> int list \<Rightarrow> error + tensor" where
  "index_select_first t idxs =
     (case dims t of
        [] \<Rightarrow> Inl IndexError
      | n # ns \<Rightarrow>
          if list_all (\<lambda>i. 0 \<le> i \<and> i < int n) idxs
          then Inr \<lparr> dims = length idxs # ns,
                     elem = (\<lambda>idx. case idx of
                                      [] \<Rightarrow> 0
                                    | k # rest \<Rightarrow> elem t (nat (idxs ! k) # rest)) \<rparr>
          else Inl IndexError)"

text \<open>\<open>t.squeeze()\<close> removes every dimension of size 1.\<close>

fun unsqueeze_index :: "nat list \<Rightarrow> nat list \<Rightarrow> nat list" where
  "unsqueeze_index [] idx = []"
| "unsqueeze_index (n # ns) idx =
     (if n = 1 then 0 # unsqueeze_index ns idx
      else case idx of
             [] \<Rightarrow> 0 # unsqueeze_index ns []
           | i # rest \<Rightarrow> i # unsqueeze_index ns rest)"

definition squeeze :: "tensor \<Rightarrow> tensor" where
  "squeeze t =
     \<lparr> dims = filter (\<lambda>n. n \<noteq> 1) (dims t),
       elem = (\<lambda>idx. elem t (unsqueeze_index (dims t) idx)) \<rparr>"

text \<open>\<open>torch.sum(t, dim=-1)\<close>.\<close>

definition sum_last :: "tensor \<Rightarrow> tensor" where
  "sum_last t =
     (case rev (dims t) of
        [] \<Rightarrow> t
      | n # _ \<Rightarrow>
          \<lparr> dims = butlast (dims t),
            elem = (\<lambda>idx. sum_list (map (\<lambda>k. elem t (idx @ [k])) [0..<n])) \<rparr>)"

text \<open>All index lists in the range of a shape; a tensor has no element when there is
  none.\<close>

fun indices :: "nat list \<Rightarrow> nat list list" where
  "indices [] = [[]]"
| "indices (n # ns) = concat (map (\<lambda>i. map (\<lambda>idx. i # idx) (indices ns)) [0..<n])"

text \<open>\<open>torch.cumprod(t, dim=-1)\<close>.\<close>

definition cumprod_last :: "tensor \<Rightarrow> tensor" where
  "cumprod_last t =
     \<lparr> dims = dims t,
       elem = (\<lambda>idx. case rev idx of
                        [] \<Rightarrow> elem t []
                      | k # _ \<Rightarrow>
                          prod_list (map (\<lambda>j. elem t (butlast idx @ [j])) [0..<Suc k])) \<rparr>"

text \<open>\<open>torch.cat((a, b), dim=-1)\<close>: both tensors have at least one dimension and agree on
  all but the last; a one-dimensional empty tensor is skipped.\<close>

definition cat_last :: "tensor \<Rightarrow> tensor \<Rightarrow> error + tensor" where
  "cat_last a b =
     (if dims a = [] \<or> dims b = [] then Inl RuntimeError
      else if dims a = [0] then Inr b
      else if dims b = [0] then Inr a
      else if butlast (dims a) = butlast (dims b)
      then Inr \<lparr> dims = butlast (dims a) @ [last (dims a) + last (dims b)],
                 elem = (\<lambda>idx. if last idx < last (dims a) then elem a idx
                               else elem b (butlast idx @ [last idx - last (dims a)])) \<rparr>
      else Inl RuntimeError)"

text \<open>\<open>torch.narrow(t, dim=-1, start=0, length=n)\<close>.\<close>

definition narrow_last :: "tensor \<Rightarrow> nat \<Rightarrow> error + tensor" where
  "narrow_last t n =
     (case rev (dims t) of
        [] \<Rightarrow> Inl RuntimeError
      | m # _ \<Rightarrow>
          if n \<le> m then Inr \<lparr> dims = butlast (dims t) @ [n], elem = elem t \<rparr>
          else Inl RuntimeError)"

text \<open>Division by a Python number (\<open>y_pred /= n_digits\<close>): a zero divisor gives \<open>inf\<close>
  or \<open>nan\<close> in torch.\<close>

definition tdiv_scalar :: "tensor \<Rightarrow> real \<Rightarrow> error + tensor" where
  "tdiv_scalar t c =
     (if c = 0 \<and> indices (dims t) \<noteq> [] then Inl NonFinite
      else Inr (tmap (\<lambda>x. x / c) t))"

section \<open>model/loss\_supervised.py\<close>

subsection \<open>The loss objects and their constructors\<close>

text \<open>The bound method that \<open>__init__\<close> stores in \<open>_func_distance\<close>.\<close>

datatype distance_method =
    Mse | ScaledMse | StandardizedMse | AutoScaledMse | PositiveAutoScaledMse
  | Mae | ScaledMae | CosineDistance | HingeDistance | Bce

text \<open>The fields of \<open>CodeLengthPredictionLoss\<close>; \<open>reduction\<close> is the field that
  \<open>_Loss.__init__\<close> sets (the arguments \<open>size_average\<close> and \<open>reduce\<close> are left at
  \<open>None\<close>). \<open>HyponymyScoreLoss\<close> adds \<open>normalize_hyponymy_score\<close>.\<close>

record loss =
  scale :: real
  normalize_code_length :: bool
  normalize_coef_for_gt :: real
  distance_metric :: string
  func_distance :: distance_method
  reduction :: string

record hyponymy_loss = loss +
  normalize_hyponymy_score :: bool

text \<open>
  The \<open>if\<close>/\<open>elif\<close> chain of \<open>CodeLengthPredictionLoss.__init__\<close>. The branch for
  \<open>batchnorm-mse\<close> evaluates \<open>self._batchnorm_mse\<close>; the class defines no such method
  (nor do \<open>_Loss\<close> and \<open>nn.Module\<close>), so the attribute lookup raises
  \<open>AttributeError\<close>.
\<close>

definition select_func_distance :: "string \<Rightarrow> error + distance_method" where
  "select_func_distance distance_metric' =
     (if distance_metric' = ''mse'' then Inr Mse
      else if distance_metric' = ''scaled-mse'' then Inr ScaledMse
      else if distance_metric' = ''standardized-mse'' then Inr StandardizedMse
      else if distance_metric' = ''autoscaled-mse'' then Inr AutoScaledMse
      else if distance_metric' = ''positive-autoscaled-mse'' then Inr PositiveAutoScaledMse
      else if distance_metric' = ''batchnorm-mse'' then Inl AttributeError
      else if distance_metric' = ''mae'' then Inr Mae
      else if distance_metric' = ''scaled-mae'' then Inr ScaledMae
      else if distance_metric' = ''cosine'' then Inr CosineDistance
      else if distance_metric' = ''hinge'' then Inr HingeDistance
      else if distance_metric' = ''binary-cross-entropy'' then Inr Bce
      else Inl AttributeError)"

definition code_length_loss_init :: "real \<Rightarrow> bool \<Rightarrow> real \<Rightarrow> string \<Rightarrow> string
    \<Rightarrow> error + loss" where
  "code_length_loss_init scale' normalize_code_length'
       normalize_coefficient_for_ground_truth distance_metric' reduction' =
     bindE (select_func_distance distance_metric') (\<lambda>f.
     Inr \<lparr> scale = scale',
           normalize_code_length = normalize_code_length',
           normalize_coef_for_gt = normalize_coefficient_for_ground_truth,
           distance_metric = distance_metric',
           func_distance = f,
           reduction = reduction' \<rparr>)"

text \<open>\<open>HyponymyScoreLoss.__init__\<close> does not pass \<open>normalize_code_length\<close> on, which
  keeps its default \<open>False\<close>; \<open>EntailmentProbabilityLoss.__init__\<close> fixes the metric. The
  other two classes inherit their constructors.\<close>

definition hyponymy_score_loss_init :: "real \<Rightarrow> bool \<Rightarrow> real \<Rightarrow> string \<Rightarrow> string
    \<Rightarrow> error + hyponymy_loss" where
  "hyponymy_score_loss_init scale' normalize_hyponymy_score'
       normalize_coefficient_for_ground_truth distance_metric' reduction' =
     bindE (code_length_loss_init scale' False normalize_coefficient_for_ground_truth
              distance_metric' reduction') (\<lambda>base.
     Inr (loss.extend base
            (hyponymy_loss.fields normalize_hyponymy_score')))"

definition entailment_probability_loss_init :: "real \<Rightarrow> string \<Rightarrow> error + hyponymy_loss" where
  "entailment_probability_loss_init scale' reduction' =
     hyponymy_score_loss_init scale' False 1 ''binary-cross-entropy'' reduction'"

subsection \<open>Distance metrics\<close>

text \<open>
  The bodies of the ten distance methods are floating point computations of torch (sums,
  means, standard deviations and quotients, whose results depend on the float type of the
  tensors and on its rounding). They are not modelled: what the methods return is a
  parameter, a function of the method, of the field \<open>reduction\<close> (the only field of the
  object that the methods read) and of the two tensors.
  \<open>call_func_distance\<close> is the call \<open>self._func_distance(y_pred, y_true)\<close>.
\<close>

type_synonym distance_methods = "distance_method \<Rightarrow> string \<Rightarrow> tensor \<Rightarrow> tensor \<Rightarrow> error + tensor"

definition call_func_distance :: "distance_methods \<Rightarrow> 'a loss_scheme \<Rightarrow> tensor \<Rightarrow> tensor
    \<Rightarrow> error + tensor" where
  "call_func_distance methods self u v = methods (func_distance self) (reduction self) u v"

subsection \<open>Code scoring functions\<close>

text \<open>\<open>shape[-1]\<close> and \<open>n_digits, n_ary = shape[-2:]\<close>: indexing an empty shape raises
  \<open>IndexError\<close>, unpacking fewer than two values raises \<open>ValueError\<close>.\<close>

definition shape_last :: "tensor \<Rightarrow> error + nat" where
  "shape_last t = (case rev (dims t) of [] \<Rightarrow> Inl IndexError | n # _ \<Rightarrow> Inr n)"

definition shape_last_two :: "tensor \<Rightarrow> error + nat \<times> nat" where
  "shape_last_two t =
     (case rev (dims t) of
        n_ary # n_digits # _ \<Rightarrow> Inr (n_digits, n_ary)
      | _ \<Rightarrow> Inl ValueError)"

definition intensity_to_probability :: "tensor \<Rightarrow> error + tensor" where
  "intensity_to_probability t_intensity =
     (let pad_shape = butlast (dims t_intensity) @ [1];
          t_pad_begin = full pad_shape 0;
          t_pad_end = full pad_shape 1
      in bindE (cat_last t_pad_begin t_intensity) (\<lambda>c1.
         bindE (cat_last t_intensity t_pad_end) (\<lambda>c2.
         tmul (cumprod_last (tmap (\<lambda>x. 1 - x) c1)) c2)))"

definition calc_soft_code_length :: "tensor \<Rightarrow> error + tensor" where
  "calc_soft_code_length t_prob_c =
     bindE (index_select_last t_prob_c 0) (\<lambda>sel.
     let t_p_c_zero = squeeze sel in
     bindE (shape_last t_p_c_zero) (\<lambda>n_digits.
     bindE (intensity_to_probability t_p_c_zero) (\<lambda>t_p_at_n.
     let t_at_n = arange (n_digits + 1) in
     bindE (tmul t_p_at_n t_at_n) (\<lambda>prod. Inr (sum_last prod)))))"

definition calc_break_intensity :: "tensor \<Rightarrow> tensor \<Rightarrow> error + tensor" where
  "calc_break_intensity t_prob_c_x t_prob_c_y =
     bindE (index_select_last t_prob_c_x 0) (\<lambda>selx.
     let t_p_c_x_zero = squeeze selx in
     bindE (index_select_last t_prob_c_y 0) (\<lambda>sely.
     let t_p_c_y_zero = squeeze sely in
     bindE (tmul t_prob_c_x t_prob_c_y) (\<lambda>xy.
     bindE (tmul t_p_c_x_zero t_p_c_y_zero) (\<lambda>zz.
     bindE (tsub (sum_last xy) zz) (\<lambda>d.
     Inr (tmap (\<lambda>x. 1 - x) d))))))"

definition calc_ancestor_probability :: "tensor \<Rightarrow> tensor \<Rightarrow> error + tensor" where
  "calc_ancestor_probability t_prob_c_x t_prob_c_y =
     bindE (shape_last_two t_prob_c_x) (\<lambda>(n_digits, n_ary).
     bindE (index_select_last t_prob_c_x 0) (\<lambda>selx.
     let t_p_c_x_zero = squeeze selx in
     bindE (index_select_last t_prob_c_y 0) (\<lambda>sely.
     let t_p_c_y_zero = squeeze sely in
     bindE (tmul t_p_c_x_zero (tmap (\<lambda>x. 1 - x) t_p_c_y_zero)) (\<lambda>t_beta.
     bindE (tmul t_prob_c_x t_prob_c_y) (\<lambda>xy.
     bindE (tmul t_p_c_x_zero t_p_c_y_zero) (\<lambda>zz.
     bindE (tsub (sum_last xy) zz) (\<lambda>t_gamma_hat.
     let pad_shape = butlast (dims t_gamma_hat) @ [1];
         t_pad_begin = full pad_shape 1
     in
     bindE (cat_last t_pad_begin t_gamma_hat) (\<lambda>c.
     bindE (narrow_last c n_digits) (\<lambda>t_gamma.
     bindE (tmul t_beta (cumprod_last t_gamma)) (\<lambda>p.
     Inr (sum_last p)))))))))))"

definition calc_soft_lowest_common_ancestor_length :: "tensor \<Rightarrow> tensor \<Rightarrow> error + tensor" where
  "calc_soft_lowest_common_ancestor_length t_prob_c_x t_prob_c_y =
     bindE (shape_last_two t_prob_c_x) (\<lambda>(n_digits, n_ary).
     bindE (calc_break_intensity t_prob_c_x t_prob_c_y) (\<lambda>t_break_intensity.
     bindE (intensity_to_probability t_break_intensity) (\<lambda>t_prob_break.
     let t_at_n = arange (n_digits + 1) in
     bindE (tmul t_prob_break t_at_n) (\<lambda>prod. Inr (sum_last prod)))))"

definition calc_soft_hyponymy_score :: "tensor \<Rightarrow> tensor \<Rightarrow> error + tensor" where
  "calc_soft_hyponymy_score t_prob_c_x t_prob_c_y =
     bindE (calc_soft_code_length t_prob_c_x) (\<lambda>l_hyper.
     bindE (calc_soft_code_length t_prob_c_y) (\<lambda>l_hypo.
     bindE (calc_ancestor_probability t_prob_c_x t_prob_c_y) (\<lambda>alpha.
     bindE (calc_soft_lowest_common_ancestor_length t_prob_c_x t_prob_c_y) (\<lambda>l_lca.
     bindE (tsub l_hypo l_hyper) (\<lambda>d1.
     bindE (tmul alpha d1) (\<lambda>s1.
     bindE (tsub l_lca l_hyper) (\<lambda>d2.
     bindE (tmul (tmap (\<lambda>a. 1 - a) alpha) d2) (\<lambda>s2.
     tadd s1 s2))))))))"

subsection \<open>The forward passes\<close>

text \<open>
  Each \<open>forward\<close> is split in two: the prediction and the ground truth that it hands to
  the distance metric (\<open>_targets\<close>), and the call of the stored metric, scaled. The
  normalisation reads \<open>t_prob_c_batch.shape[1]\<close>.
\<close>

definition shape_at_1 :: "tensor \<Rightarrow> error + nat" where
  "shape_at_1 t = (case dims t of _ # n # _ \<Rightarrow> Inr n | _ \<Rightarrow> Inl IndexError)"

definition normalize_targets :: "bool \<Rightarrow> real \<Rightarrow> tensor \<Rightarrow> tensor \<Rightarrow> tensor
    \<Rightarrow> error + tensor \<times> tensor" where
  "normalize_targets normalized coef t_prob_c_batch y_pred y_true =
     (if normalized
      then bindE (shape_at_1 t_prob_c_batch) (\<lambda>n_digits.
           bindE (tdiv_scalar y_pred (real n_digits)) (\<lambda>y_pred'.
           Inr (y_pred', tmap (\<lambda>x. x * coef) y_true)))
      else Inr (y_pred, y_true))"

definition apply_distance :: "distance_methods \<Rightarrow> 'a loss_scheme \<Rightarrow> error + tensor \<times> tensor
    \<Rightarrow> error + tensor" where
  "apply_distance F self targets =
     bindE targets (\<lambda>(y_pred, y_true).
     bindE (call_func_distance F self y_pred y_true) (\<lambda>loss'.
     Inr (tmap (\<lambda>x. x * scale self) loss')))"

definition code_length_targets :: "'a loss_scheme \<Rightarrow> tensor \<Rightarrow> (int \<times> real) list
    \<Rightarrow> error + tensor \<times> tensor" where
  "code_length_targets self t_prob_c_batch lst_code_length_tuple =
     (let t_idx = map fst lst_code_length_tuple;
          y_true = vec (map snd lst_code_length_tuple)
      in bindE (index_select_first t_prob_c_batch t_idx) (\<lambda>t_prob_c.
         bindE (calc_soft_code_length t_prob_c) (\<lambda>y_pred.
         normalize_targets (normalize_code_length self) (normalize_coef_for_gt self)
           t_prob_c_batch y_pred y_true)))"

definition code_length_forward :: "distance_methods \<Rightarrow> 'a loss_scheme \<Rightarrow> tensor
    \<Rightarrow> (int \<times> real) list \<Rightarrow> error + tensor" where
  "code_length_forward F self t_prob_c_batch lst_code_length_tuple =
     apply_distance F self (code_length_targets self t_prob_c_batch lst_code_length_tuple)"

definition code_length_diff_targets :: "'a loss_scheme \<Rightarrow> tensor \<Rightarrow> (int \<times> int \<times> real) list
    \<Rightarrow> error + tensor \<times> tensor" where
  "code_length_diff_targets self t_prob_c_batch lst_code_length_diff_tuple =
     (let t_idx_x = map fst lst_code_length_diff_tuple;
          t_idx_y = map (\<lambda>tup. fst (snd tup)) lst_code_length_diff_tuple;
          y_true = vec (map (\<lambda>tup. snd (snd tup)) lst_code_length_diff_tuple)
      in bindE (calc_soft_code_length t_prob_c_batch) (\<lambda>t_code_length.
         bindE (index_select_first t_code_length t_idx_x) (\<lambda>t_code_length_x.
         bindE (index_select_first t_code_length t_idx_y) (\<lambda>t_code_length_y.
         bindE (tsub t_code_length_y t_code_length_x) (\<lambda>y_pred.
         normalize_targets (normalize_code_length self) (normalize_coef_for_gt self)
           t_prob_c_batch y_pred y_true)))))"

definition code_length_diff_forward :: "distance_methods \<Rightarrow> 'a loss_scheme \<Rightarrow> tensor
    \<Rightarrow> (int \<times> int \<times> real) list \<Rightarrow> error + tensor" where
  "code_length_diff_forward F self t_prob_c_batch lst_code_length_diff_tuple =
     apply_distance F self
       (code_length_diff_targets self t_prob_c_batch lst_code_length_diff_tuple)"

text \<open>The selection of the hypernym and hyponym rows, shared by the three classes below.\<close>

definition select_pairs :: "tensor \<Rightarrow> (int \<times> int \<times> real) list
    \<Rightarrow> error + tensor \<times> tensor \<times> tensor" where
  "select_pairs t_prob_c_batch lst_hyponymy_tuple =
     (let t_idx_x = map fst lst_hyponymy_tuple;
          t_idx_y = map (\<lambda>tup. fst (snd tup)) lst_hyponymy_tuple;
          y_true = vec (map (\<lambda>tup. snd (snd tup)) lst_hyponymy_tuple)
      in bindE (index_select_first t_prob_c_batch t_idx_x) (\<lambda>t_prob_c_x.
         bindE (index_select_first t_prob_c_batch t_idx_y) (\<lambda>t_prob_c_y.
         Inr (t_prob_c_x, t_prob_c_y, y_true))))"

definition hyponymy_score_targets :: "'a hyponymy_loss_scheme \<Rightarrow> tensor
    \<Rightarrow> (int \<times> int \<times> real) list \<Rightarrow> error + tensor \<times> tensor" where
  "hyponymy_score_targets self t_prob_c_batch lst_hyponymy_tuple =
     (let t_prob_c_batch' = clamp t_prob_c_batch (1 / 10 ^ 5) (1 - 1 / 10 ^ 5) in
      bindE (select_pairs t_prob_c_batch' lst_hyponymy_tuple) (\<lambda>(t_prob_c_x, t_prob_c_y, y_true).
      bindE (calc_soft_hyponymy_score t_prob_c_x t_prob_c_y) (\<lambda>y_pred.
      normalize_targets (normalize_hyponymy_score self) (normalize_coef_for_gt self)
        t_prob_c_batch' y_pred y_true)))"

definition hyponymy_score_forward :: "distance_methods \<Rightarrow> 'a hyponymy_loss_scheme \<Rightarrow> tensor
    \<Rightarrow> (int \<times> int \<times> real) list \<Rightarrow> error + tensor" where
  "hyponymy_score_forward F self t_prob_c_batch lst_hyponymy_tuple =
     apply_distance F self (hyponymy_score_targets self t_prob_c_batch lst_hyponymy_tuple)"

definition lca_length_targets :: "'a hyponymy_loss_scheme \<Rightarrow> tensor
    \<Rightarrow> (int \<times> int \<times> real) list \<Rightarrow> error + tensor \<times> tensor" where
  "lca_length_targets self t_prob_c_batch lst_hyponymy_tuple =
     bindE (select_pairs t_prob_c_batch lst_hyponymy_tuple) (\<lambda>(t_prob_c_x, t_prob_c_y, y_true).
     bindE (calc_soft_lowest_common_ancestor_length t_prob_c_x t_prob_c_y) (\<lambda>y_pred.
     normalize_targets (normalize_hyponymy_score self) (normalize_coef_for_gt self)
       t_prob_c_batch y_pred y_true))"

definition lca_length_forward :: "distance_methods \<Rightarrow> 'a hyponymy_loss_scheme \<Rightarrow> tensor
    \<Rightarrow> (int \<times> int \<times> real) list \<Rightarrow> error + tensor" where
  "lca_length_forward F self t_prob_c_batch lst_hyponymy_tuple =
     apply_distance F self (lca_length_targets self t_prob_c_batch lst_hyponymy_tuple)"

definition entailment_probability_targets :: "tensor \<Rightarrow> (int \<times> int \<times> real) list
    \<Rightarrow> error + tensor \<times> tensor" where
  "entailment_probability_targets t_prob_c_batch lst_hyponymy_tuple =
     (let t_prob_c_batch' = clamp t_prob_c_batch (1 / 10 ^ 5) (1 - 1 / 10 ^ 5) in
      bindE (select_pairs t_prob_c_batch' lst_hyponymy_tuple) (\<lambda>(t_prob_c_x, t_prob_c_y, y_true).
      bindE (calc_ancestor_probability t_prob_c_x t_prob_c_y) (\<lambda>y_pred.
      Inr (y_pred, y_true))))"

definition entailment_probability_forward :: "distance_methods \<Rightarrow> 'a hyponymy_loss_scheme
    \<Rightarrow> tensor \<Rightarrow> (int \<times> int \<times> real) list \<Rightarrow> error + tensor" where
  "entailment_probability_forward F self t_prob_c_batch lst_hyponymy_tuple =
     apply_distance F self (entailment_probability_targets t_prob_c_batch lst_hyponymy_tuple)"

subsection \<open>Tensors for the examples\<close>

text \<open>A batch of code distributions of shape \<open>(n_batch, n_digits, 2)\<close> in which every
  digit has the distribution \<open>(p, 1 - p)\<close>.\<close>

definition constant_codes :: "nat \<Rightarrow> nat \<Rightarrow> real \<Rightarrow> tensor" where
  "constant_codes n_batch n_digits p =
     \<lparr> dims = [n_batch, n_digits, 2],
       elem = (\<lambda>idx. if last idx = 0 then p else 1 - p) \<rparr>"

text \<open>The metric names that the \<open>if\<close>/\<open>elif\<close> chain of the constructor tests for.\<close>

definition recognised_metric_names :: "string list" where
  "recognised_metric_names =
     [''mse'', ''scaled-mse'', ''standardized-mse'', ''autoscaled-mse'',
      ''positive-autoscaled-mse'', ''batchnorm-mse'', ''mae'', ''scaled-mae'', ''cosine'',
      ''hinge'', ''binary-cross-entropy'']"

subsection \<open>The scoring functions in the words of the specification\<close>

text \<open>
  An index list is in the range of a shape when it has one index below the size of
  each dimension.
\<close>

definition in_range :: "nat list \<Rightarrow> nat list \<Rightarrow> bool" where
  "in_range ds idx = list_all2 (\<lambda>i n. i < n) idx ds"

text \<open>
  The soft code length of one entity, whose digit \<open>n\<close> terminates the code with probability
  \<open>p0 n\<close>: the code has length \<open>l\<close> with probability \<open>p0 l \<cdot> \<Prod>\<^bsub>k<l\<^esub> (1 - p0 k)\<close>, where the
  terminator of the length \<open>n_digits\<close> has probability 1, and the soft length is the
  sum of \<open>l \<cdot> Pr(length = l)\<close> over \<open>l = 0, \<dots>, n_digits\<close>.
\<close>

definition spec_length_probability :: "(nat \<Rightarrow> real) \<Rightarrow> nat \<Rightarrow> nat \<Rightarrow> real" where
  "spec_length_probability p0 n_digits l =
     (if l < n_digits then p0 l else 1) * prod_list (map (\<lambda>k. 1 - p0 k) [0..<l])"

definition spec_soft_code_length :: "(nat \<Rightarrow> real) \<Rightarrow> nat \<Rightarrow> real" where
  "spec_soft_code_length p0 n_digits =
     sum_list (map (\<lambda>l. real l * spec_length_probability p0 n_digits l) [0..<n_digits + 1])"

text \<open>\<open>squeeze()\<close> also removes the batch dimension when the batch has one entity: the
  value of entity \<open>b\<close> in a tensor of per-entity values is then read at the empty index.
  \<open>entity_index n_batch n_batch\<close> is the shape of such a tensor.\<close>

definition entity_index :: "nat \<Rightarrow> nat \<Rightarrow> nat list" where
  "entity_index n_batch b = (if n_batch = 1 then [] else [b])"

section \<open>Properties\<close>

subsection \<open>Results with errors\<close>

lemma bindE_Inr_iff: "(bindE r f = Inr y) = (\<exists>x. r = Inr x \<and> f x = Inr y)"
  unfolding bindE_def by (cases r) simp_all

lemma bindE_Inl: "bindE (Inl e) f = Inl e"
  unfolding bindE_def by simp

lemma bindE_Inr: "bindE (Inr x) f = f x"
  unfolding bindE_def by simp

lemma assertE_Inr_iff: "(assertE c = Inr u) = c"
  unfolding assertE_def by simp


subsection \<open>Splitting a batch by the sign of the distance\<close>

lemma split_loop_filter:
  "split_loop ps h hr n nr =
     (h @ map fst (filter (\<lambda>p. snd (snd (fst p)) > 0) ps),
      hr @ map snd (filter (\<lambda>p. snd (snd (fst p)) > 0) ps),
      n @ map fst (filter (\<lambda>p. \<not> snd (snd (fst p)) > 0) ps),
      nr @ map snd (filter (\<lambda>p. \<not> snd (snd (fst p)) > 0) ps))"
  by (induction ps h hr n nr rule: split_loop.induct) (simp_all add: Let_def)

lemma filter_zip_fst:
  "length xs = length ys \<Longrightarrow> map fst (filter (\<lambda>p. P (fst p)) (zip xs ys)) = filter P xs"
  by (induction xs ys rule: list_induct2) simp_all

lemma mset_filter_split_snd:
  "mset (map snd (filter Q ps)) + mset (map snd (filter (\<lambda>p. \<not> Q p) ps)) = mset (map snd ps)"
  by (induction ps) simp_all


text \<open>
  Claim C5. For a batch whose relation triples and raw records are aligned (equally long
  lists, as \<open>_create_batch_from_hyponymy_samples\<close> builds them), the split puts into the
  hyponymy sublist exactly the triples with distance \<open>> 0\<close> and into the non-hyponymy
  sublist exactly those with distance \<open>\<le> 0\<close>, both in their original order; each sublist of
  raw records stays aligned with its triples (zipping them gives the filtered zip of the
  input), and the two sublists together are, as multisets, the list before the split.
\<close>

theorem split_partitions_by_distance:
  assumes len: "length (hyponymy_relation b) = length (hyponymy_relation_raw b)"
  shows "\<exists>n nr.
      non_hyponymy_relation (split_hyponymy_samples_and_non_hyponymy_samples b) = Some n
    \<and> non_hyponymy_relation_raw (split_hyponymy_samples_and_non_hyponymy_samples b) = Some nr
    \<and> hyponymy_relation (split_hyponymy_samples_and_non_hyponymy_samples b)
        = filter (\<lambda>r. snd (snd r) > 0) (hyponymy_relation b)
    \<and> n = filter (\<lambda>r. snd (snd r) \<le> 0) (hyponymy_relation b)
    \<and> zip (hyponymy_relation (split_hyponymy_samples_and_non_hyponymy_samples b))
          (hyponymy_relation_raw (split_hyponymy_samples_and_non_hyponymy_samples b))
        = filter (\<lambda>p. snd (snd (fst p)) > 0)
            (zip (hyponymy_relation b) (hyponymy_relation_raw b))
    \<and> zip n nr
        = filter (\<lambda>p. snd (snd (fst p)) \<le> 0)
            (zip (hyponymy_relation b) (hyponymy_relation_raw b))
    \<and> mset (hyponymy_relation (split_hyponymy_samples_and_non_hyponymy_samples b)) + mset n
        = mset (hyponymy_relation b)
    \<and> mset (hyponymy_relation_raw (split_hyponymy_samples_and_non_hyponymy_samples b)) + mset nr
        = mset (hyponymy_relation_raw b)"
proof -
  let ?ps = "zip (hyponymy_relation b) (hyponymy_relation_raw b)"
  let ?Q = "\<lambda>p::relation \<times> hyponymy. snd (snd (fst p)) > 0"
  have not_le: "(\<lambda>p::relation \<times> hyponymy. \<not> snd (snd (fst p)) > 0) = (\<lambda>p. snd (snd (fst p)) \<le> 0)"
    by (simp add: fun_eq_iff not_less)
  have not_le': "(\<lambda>r::relation. \<not> snd (snd r) > 0) = (\<lambda>r. snd (snd r) \<le> 0)"
    by (simp add: fun_eq_iff not_less)
  have h: "map fst (filter ?Q ?ps) = filter (\<lambda>r. snd (snd r) > 0) (hyponymy_relation b)"
    using filter_zip_fst [OF len, of "\<lambda>r. snd (snd r) > 0"] by simp
  have n: "map fst (filter (\<lambda>p. \<not> ?Q p) ?ps) = filter (\<lambda>r. snd (snd r) \<le> 0) (hyponymy_relation b)"
    using filter_zip_fst [OF len, of "\<lambda>r. \<not> snd (snd r) > 0"] by (simp add: not_le')
  have raw: "map snd ?ps = hyponymy_relation_raw b"
    using len by simp
  have m1: "mset (filter (\<lambda>r. snd (snd r) > 0) (hyponymy_relation b))
            + mset (filter (\<lambda>r. snd (snd r) \<le> 0) (hyponymy_relation b)) = mset (hyponymy_relation b)"
    using mset_filter [of "\<lambda>r. snd (snd r) > 0" "hyponymy_relation b"]
    by (simp add: not_le' [symmetric])
  have m2: "mset (map snd (filter ?Q ?ps)) + mset (map snd (filter (\<lambda>p. \<not> ?Q p) ?ps))
            = mset (hyponymy_relation_raw b)"
    using mset_filter_split_snd [of ?Q ?ps] raw by simp
  have z1: "zip (filter (\<lambda>r. snd (snd r) > 0) (hyponymy_relation b)) (map snd (filter ?Q ?ps))
            = filter ?Q ?ps"
    unfolding h [symmetric] by (rule zip_map_fst_snd)
  have z2: "zip (filter (\<lambda>r. snd (snd r) \<le> 0) (hyponymy_relation b))
              (map snd (filter (\<lambda>p. \<not> ?Q p) ?ps))
            = filter (\<lambda>p. \<not> ?Q p) ?ps"
    unfolding n [symmetric] by (rule zip_map_fst_snd)
  show ?thesis
    unfolding split_hyponymy_samples_and_non_hyponymy_samples_def split_loop_filter
    using h n m1 m2 z1 z2
    by (simp add: not_le)
qed

theorem split_partitions_by_distance_witness:
  "length (hyponymy_relation \<lparr> embedding = [[1], [2]], entity = [''animal'', ''dog''],
       hyponymy_relation = [(0, 1, 3), (1, 0, - 1)],
       hyponymy_relation_raw =
         [\<lparr>hyponym = ''dog'', hypernym = ''animal'', distance = 3\<rparr>,
          \<lparr>hyponym = ''animal'', hypernym = ''dog'', distance = - 1\<rparr>],
       entity_sampled = None, non_hyponymy_relation = None,
       non_hyponymy_relation_raw = None \<rparr>) = 2
   \<and> hyponymy_relation (split_hyponymy_samples_and_non_hyponymy_samples
       \<lparr> embedding = [[1], [2]], entity = [''animal'', ''dog''],
       hyponymy_relation = [(0, 1, 3), (1, 0, - 1)],
       hyponymy_relation_raw =
         [\<lparr>hyponym = ''dog'', hypernym = ''animal'', distance = 3\<rparr>,
          \<lparr>hyponym = ''animal'', hypernym = ''dog'', distance = - 1\<rparr>],
       entity_sampled = None, non_hyponymy_relation = None,
       non_hyponymy_relation_raw = None \<rparr>) = [(0, 1, 3)]
   \<and> non_hyponymy_relation (split_hyponymy_samples_and_non_hyponymy_samples
       \<lparr> embedding = [[1], [2]], entity = [''animal'', ''dog''],
       hyponymy_relation = [(0, 1, 3), (1, 0, - 1)],
       hyponymy_relation_raw =
         [\<lparr>hyponym = ''dog'', hypernym = ''animal'', distance = 3\<rparr>,
          \<lparr>hyponym = ''animal'', hypernym = ''dog'', distance = - 1\<rparr>],
       entity_sampled = None, non_hyponymy_relation = None,
       non_hyponymy_relation_raw = None \<rparr>) = Some [(1, 0, - 1)]"
  using split_partitions_by_distance [of "\<lparr> embedding = [[1], [2]], entity = [''animal'', ''dog''],
       hyponymy_relation = [(0, 1, 3), (1, 0, - 1)],
       hyponymy_relation_raw =
         [\<lparr>hyponym = ''dog'', hypernym = ''animal'', distance = 3\<rparr>,
          \<lparr>hyponym = ''animal'', hypernym = ''dog'', distance = - 1\<rparr>],
       entity_sampled = None, non_hyponymy_relation = None,
       non_hyponymy_relation_raw = None \<rparr>"]
  by auto

subsection \<open>The constructor of the negative-sampling dataset\<close>

lemma nh_init_None_raises: "\<exists>e. nh_init dataloader kind n_emb n_hypo be br None nhd target excl limit split' verbose'
          = Inl e"
  proof (cases "init dataloader n_emb n_hypo be br False")
    case (Inl e)
    then show ?thesis unfolding nh_init_def by (simp only: bindE_Inl) blast
  next
    case (Inr base)
    then show ?thesis unfolding nh_init_def
      by (simp only: bindE_Inr option.case bindE_Inl) blast
  qed

lemma nh_init_Inr_multiple:
  assumes ok: "nh_init dataloader kind n_emb n_hypo be br nhbs nhd target excl limit split' verbose'
          = Inr self"
  shows "\<exists>n k. nhbs = Some n \<and> n = k * br \<and> n mod br = 0
                  \<and> non_hyponymy_batch_size self = n \<and> hyponymy_batch_size self = br"
proof -
  obtain base where base: "init dataloader n_emb n_hypo be br False = Inr base"
    using ok unfolding nh_init_def
    by (cases "init dataloader n_emb n_hypo be br False") (simp_all only: bindE_Inl sum.distinct)
  obtain n where n: "nhbs = Some n"
    using ok nh_init_None_raises [of dataloader kind n_emb n_hypo be br nhd target excl limit split' verbose']
    by (cases nhbs) auto
  have br: "br \<noteq> 0"
  proof
    assume z: "br = 0"
    from base z have base0: "init dataloader n_emb n_hypo be 0 False = Inr base" by simp
    have "nh_init dataloader kind n_emb n_hypo be br nhbs nhd target excl limit split' verbose'
      = Inl ZeroDivisionError"
      unfolding nh_init_def by (simp add: base0 z n bindE_Inr bindE_Inl)
    with ok show False by simp
  qed
  have m: "n mod br = 0"
  proof (rule ccontr)
    assume "n mod br \<noteq> 0"
    then have "nh_init dataloader kind n_emb n_hypo be br nhbs nhd target excl limit split' verbose'
      = Inl AssertionError"
      unfolding nh_init_def by (simp add: base n br bindE_Inr bindE_Inl assertE_def)
    with ok show False by simp
  qed
  have "\<exists>t. self = nh_self n_emb n_hypo be br n nhd target excl limit split' verbose' t"
    using ok unfolding nh_init_def
    by (cases kind) (simp_all add: base n br m bindE_Inr bindE_Inr_iff Let_def, blast+)
  then have f: "non_hyponymy_batch_size self = n \<and> hyponymy_batch_size self = br"
    by (elim exE) (simp add: nh_self_def)
  from m have k: "\<exists>k. n = k * br"
    using div_mult_mod_eq [of n br] by (intro exI [of _ "n div br"]) simp
  from n m f k show ?thesis
    by simp
qed

text \<open>
  Claim C10. With \<open>non_hyponymy_batch_size = None\<close> (the default) the constructor always
  raises; whenever it returns an object, the argument was an explicit integer that is a
  multiple of \<open>hyponymy_batch_size\<close>, and that integer is the stored batch size.
\<close>

theorem nh_init_needs_explicit_multiple:
  "(\<exists>e. nh_init dataloader kind n_emb n_hypo be br None nhd target excl limit split' verbose'
          = Inl e)
   \<and> (nh_init dataloader kind n_emb n_hypo be br nhbs nhd target excl limit split' verbose'
          = Inr self
        \<longrightarrow> (\<exists>n k. nhbs = Some n \<and> n = k * br \<and> n mod br = 0
                  \<and> non_hyponymy_batch_size self = n \<and> hyponymy_batch_size self = br))"
  by (intro conjI impI nh_init_None_raises) (rule nh_init_Inr_multiple)

lemma nh_init_example:
  "nh_init (\<lambda>_. None) HyponymyDataset 100 10 10 2 (Some 4) None ''hyponym'' True True True False
     = Inr (nh_self 100 10 10 2 4 None ''hyponym'' True True True False BasicTaxonomy)"
  unfolding nh_init_def init_def by (simp add: Let_def bindE_Inr assertE_def)

theorem nh_init_needs_explicit_multiple_witness:
  "nh_init (\<lambda>_. None) HyponymyDataset 100 10 10 2 (Some 4) None ''hyponym'' True True True False
     = Inr (nh_self 100 10 10 2 4 None ''hyponym'' True True True False BasicTaxonomy)
   \<and> (\<exists>n k. Some (4::int) = Some n \<and> n = k * 2 \<and> n mod 2 = 0
         \<and> non_hyponymy_batch_size
             (nh_self 100 10 10 2 4 None ''hyponym'' True True True False BasicTaxonomy) = n)
   \<and> (\<exists>e. nh_init (\<lambda>_. None) HyponymyDataset 100 10 10 2 None None ''hyponym'' True True True False
          = Inl e)"
  using nh_init_needs_explicit_multiple [of "\<lambda>_. None" HyponymyDataset 100 10 10 2 None
      "''hyponym''" True True True False "Some 4"
      "nh_self 100 10 10 2 4 None ''hyponym'' True True True False BasicTaxonomy"]
    nh_init_example
  by simp

subsection \<open>The batch size report\<close>

lemma coef_effective_samples_pos: "0 < coef_effective_samples"
  unfolding coef_effective_samples_def by simp

lemma coef_effective_samples_exp: "coef_effective_samples = 1 - exp (- 1)"
  unfolding coef_effective_samples_def by (simp add: exp_minus inverse_eq_divide)

lemma verify_batch_sizes_Inr:
  assumes "verify_batch_sizes d = Inr r"
  shows "n_embeddings_used_in_epoch r
           = coef_effective_samples
             * (real (n_hyponymy d) / real_of_int (hyponymy_batch_size d))
             * real_of_int (embedding_batch_size d - 2 * hyponymy_batch_size d)"
    and "ratio r = n_embeddings_used_in_epoch r / real (n_embeddings d)"
  using assms unfolding verify_batch_sizes_def Let_def
  by (simp_all split: if_splits) (clarsimp)+

lemma nh_verify_batch_sizes_Inr:
  assumes "nh_verify_batch_sizes d = Inr r"
  shows "n_embeddings_used_in_epoch r
           = coef_effective_samples
             * (real (n_hyponymy d) / real_of_int (hyponymy_batch_size d))
             * real_of_int (if limit_hyponym_candidates_within_minibatch d
                            then embedding_batch_size d - 2 * hyponymy_batch_size d
                            else embedding_batch_size d - 2 * hyponymy_batch_size d
                                   - non_hyponymy_batch_size d)"
    and "ratio r = n_embeddings_used_in_epoch r / real (n_embeddings d)"
  using assms unfolding nh_verify_batch_sizes_def Let_def
  by (simp_all split: if_splits) (clarsimp)+

lemma verify_batch_sizes_returns:
  assumes "hyponymy_batch_size d \<noteq> 0" "n_embeddings d \<noteq> 0" "n_hyponymy d \<noteq> 0"
  shows "\<not> isl (verify_batch_sizes d)"
proof -
  have "0 < real (n_embeddings d) + 2 * coef_effective_samples * real (n_hyponymy d)"
    using assms coef_effective_samples_pos by (simp add: add_pos_pos)
  then show ?thesis
    using assms coef_effective_samples_pos
    unfolding verify_batch_sizes_def Let_def by simp
qed

lemma nh_verify_batch_sizes_returns:
  assumes "hyponymy_batch_size d \<noteq> 0" "n_embeddings d \<noteq> 0" "n_hyponymy d \<noteq> 0"
    and "limit_hyponym_candidates_within_minibatch d \<or> 0 \<le> non_hyponymy_multiple d"
  shows "\<not> isl (nh_verify_batch_sizes d)"
proof -
  let ?m = "if limit_hyponym_candidates_within_minibatch d then 2 else 2 + non_hyponymy_multiple d"
  have "0 < ?m" using assms(4) by auto
  then have "0 < real_of_int ?m * coef_effective_samples * real (n_hyponymy d)"
    using assms coef_effective_samples_pos by simp
  then have "0 < real (n_embeddings d) + real_of_int ?m * coef_effective_samples * real (n_hyponymy d)"
    using assms by (simp add: add_pos_pos)
  then show ?thesis
    using assms coef_effective_samples_pos
    unfolding nh_verify_batch_sizes_def Let_def by simp
qed

text \<open>
  The report does not round the number of relation batches up: with 3 relations in batches
  of 2 it counts 1.5 batches, where \<open>ceil(N_relations / B_r)\<close> is 2.
\<close>

theorem verify_batch_sizes_uses_true_division_counterexample:
  "\<not> isl (verify_batch_sizes
        \<lparr> n_embeddings = 10, n_hyponymy = 3, embedding_batch_size = 5,
          hyponymy_batch_size = 2, verbose = False \<rparr>)
   \<and> n_embeddings_used_in_epoch (projr (verify_batch_sizes
        \<lparr> n_embeddings = 10, n_hyponymy = 3, embedding_batch_size = 5,
          hyponymy_batch_size = 2, verbose = False \<rparr>))
       \<noteq> (1 - exp (- 1)) * real_of_int \<lceil>(3::real) / 2\<rceil> * real_of_int (5 - 2 * 2)"
proof -
  let ?d = "\<lparr> n_embeddings = 10, n_hyponymy = 3, embedding_batch_size = 5,
          hyponymy_batch_size = 2, verbose = False \<rparr>"
  have r: "\<not> isl (verify_batch_sizes ?d)"
    by (rule verify_batch_sizes_returns) simp_all
  then have "verify_batch_sizes ?d = Inr (projr (verify_batch_sizes ?d))"
    by simp
  from verify_batch_sizes_Inr(1) [OF this]
  have u: "n_embeddings_used_in_epoch (projr (verify_batch_sizes ?d))
        = coef_effective_samples * (3 / 2)"
    by simp
  have c: "\<lceil>(3::real) / 2\<rceil> = 2" by (simp add: ceiling_eq_iff)
  have "coef_effective_samples * (3 / 2) \<noteq> coef_effective_samples * 2"
    using coef_effective_samples_pos by simp
  with r u c show ?thesis
    unfolding coef_effective_samples_exp [symmetric] by simp
qed


text \<open>
  Claim C3, as amended. Whenever \<open>verify_batch_sizes\<close> returns, the expected number of
  embeddings used in an epoch is \<open>(1 - e\<^sup>-\<^sup>1)\<close> times the quotient
  \<open>N_relations / B_r\<close> (a true division, not rounded up) times the filler slots of a batch:
  \<open>B_e - 2 B_r\<close> in the base class and in the subclass when candidates are limited to the
  minibatch, \<open>B_e - 2 B_r - non_hyponymy_batch_size\<close> in the subclass otherwise. The ratio is
  that number divided by the vocabulary size.
\<close>

theorem verify_batch_sizes_expected_coverage:
  "(verify_batch_sizes d = Inr r \<longrightarrow>
      n_embeddings_used_in_epoch r
        = (1 - exp (- 1))
          * (real (n_hyponymy d) / real_of_int (hyponymy_batch_size d))
          * real_of_int (embedding_batch_size d - 2 * hyponymy_batch_size d)
      \<and> ratio r = n_embeddings_used_in_epoch r / real (n_embeddings d))
   \<and> (nh_verify_batch_sizes d' = Inr r' \<longrightarrow>
      n_embeddings_used_in_epoch r'
        = (1 - exp (- 1))
          * (real (n_hyponymy d') / real_of_int (hyponymy_batch_size d'))
          * real_of_int (if limit_hyponym_candidates_within_minibatch d'
                         then embedding_batch_size d' - 2 * hyponymy_batch_size d'
                         else embedding_batch_size d' - 2 * hyponymy_batch_size d'
                                - non_hyponymy_batch_size d')
      \<and> ratio r' = n_embeddings_used_in_epoch r' / real (n_embeddings d'))"
  using verify_batch_sizes_Inr [of d r] nh_verify_batch_sizes_Inr [of d' r']
  unfolding coef_effective_samples_exp by blast

theorem verify_batch_sizes_expected_coverage_witness:
  "verify_batch_sizes
        \<lparr> n_embeddings = 10, n_hyponymy = 3, embedding_batch_size = 5,
          hyponymy_batch_size = 2, verbose = False \<rparr>
     = Inr (projr (verify_batch_sizes
        \<lparr> n_embeddings = 10, n_hyponymy = 3, embedding_batch_size = 5,
          hyponymy_batch_size = 2, verbose = False \<rparr>))
   \<and> n_embeddings_used_in_epoch (projr (verify_batch_sizes
        \<lparr> n_embeddings = 10, n_hyponymy = 3, embedding_batch_size = 5,
          hyponymy_batch_size = 2, verbose = False \<rparr>))
       = (1 - exp (- 1)) * (3 / 2)
   \<and> nh_verify_batch_sizes (nh_self 10 3 9 2 4 None ''hyponym'' True False True False BasicTaxonomy)
     = Inr (projr (nh_verify_batch_sizes
         (nh_self 10 3 9 2 4 None ''hyponym'' True False True False BasicTaxonomy)))
   \<and> n_embeddings_used_in_epoch (projr (nh_verify_batch_sizes
         (nh_self 10 3 9 2 4 None ''hyponym'' True False True False BasicTaxonomy)))
       = (1 - exp (- 1)) * (3 / 2)"
proof -
  let ?d = "\<lparr> n_embeddings = 10, n_hyponymy = 3, embedding_batch_size = 5,
          hyponymy_batch_size = 2, verbose = False \<rparr>"
  let ?d' = "nh_self 10 3 9 2 4 None ''hyponym'' True False True False BasicTaxonomy"
  have "\<not> isl (verify_batch_sizes ?d)"
    by (rule verify_batch_sizes_returns) simp_all
  then have r: "verify_batch_sizes ?d = Inr (projr (verify_batch_sizes ?d))"
    by simp
  have "\<not> isl (nh_verify_batch_sizes ?d')"
    by (rule nh_verify_batch_sizes_returns) (simp_all add: nh_self_def)
  then have r': "nh_verify_batch_sizes ?d' = Inr (projr (nh_verify_batch_sizes ?d'))"
    by simp
  from verify_batch_sizes_expected_coverage
         [of ?d "projr (verify_batch_sizes ?d)" ?d' "projr (nh_verify_batch_sizes ?d')"] r r'
  show ?thesis
    by (simp add: nh_self_def)
qed

subsection \<open>Batches\<close>

lemma set_add_props: "set (set_add x s) = insert x (set s)" "distinct s \<Longrightarrow> distinct (set_add x s)"
  unfolding set_add_def by auto

lemma set_update_props:
  "set (set_update s xs) = set s \<union> set xs" "distinct s \<Longrightarrow> distinct (set_update s xs)"
  unfolding set_update_def
  by (induction xs arbitrary: s) (simp_all add: set_add_props)

lemma tokens_of_samples_aux:
  "set (foldl (\<lambda>set_tokens h. set_add (hypernym h) (set_add (hyponym h) set_tokens)) s hs)
     = set s \<union> hyponym ` set hs \<union> hypernym ` set hs"
  "distinct s \<Longrightarrow>
   distinct (foldl (\<lambda>set_tokens h. set_add (hypernym h) (set_add (hyponym h) set_tokens)) s hs)"
  by (induction hs arbitrary: s) (auto simp add: set_add_props)

lemma tokens_of_samples_props:
  "set (tokens_of_samples hs) = hyponym ` set hs \<union> hypernym ` set hs"
  "distinct (tokens_of_samples hs)"
  unfolding tokens_of_samples_def by (simp_all add: tokens_of_samples_aux)

lemma dict_of_enumerate_snoc:
  "dict_of_enumerate (xs @ [x]) = (dict_of_enumerate xs)(x \<mapsto> length xs)"
  unfolding dict_of_enumerate_def by simp

lemma dict_of_enumerate_Nil: "dict_of_enumerate [] = Map.empty"
  unfolding dict_of_enumerate_def by simp

lemma dict_of_enumerate_Some:
  "dict_of_enumerate xs k = Some i \<Longrightarrow> i < length xs \<and> xs ! i = k"
proof (induction xs arbitrary: i rule: rev_induct)
  case Nil
  then show ?case by (simp add: dict_of_enumerate_Nil)
next
  case (snoc x xs)
  then show ?case
    by (auto simp add: dict_of_enumerate_snoc nth_append less_Suc_eq split: if_splits)
qed

lemma dict_of_enumerate_dom: "k \<in> set xs \<Longrightarrow> \<exists>i. dict_of_enumerate xs k = Some i"
  by (induction xs rule: rev_induct) (auto simp add: dict_of_enumerate_snoc dict_of_enumerate_Nil)

lemma mapE_Inr: "mapE f xs = Inr ys \<Longrightarrow> list_all2 (\<lambda>x y. f x = Inr y) xs ys"
  by (induction xs arbitrary: ys) (auto split: sum.splits)

lemma mapE_total: "(\<And>x. x \<in> set xs \<Longrightarrow> \<exists>y. f x = Inr y) \<Longrightarrow> \<exists>ys. mapE f xs = Inr ys"
proof (induction xs)
  case Nil
  then show ?case by simp
next
  case (Cons a xs)
  from Cons.prems obtain y where y: "f a = Inr y" by auto
  from Cons obtain ys where "mapE f xs = Inr ys" by auto
  with y show ?case by simp
qed

lemma index_relation_in_range:
  "index_relation (dict_of_enumerate lst) h = Inr r \<Longrightarrow> fst r < length lst \<and> fst (snd r) < length lst"
  unfolding index_relation_def dict_get_def bindE_def
  by (auto split: option.splits dest: dict_of_enumerate_Some)

lemma index_relation_distance:
  "index_relation m h = Inr r \<Longrightarrow> snd (snd r) = distance h"
  unfolding index_relation_def dict_get_def bindE_def
  by (auto split: option.splits)

lemma mapE_index_relation_in_range:
  assumes "mapE (index_relation (dict_of_enumerate lst)) hs = Inr rs"
  shows "relations_in_range (length lst) rs" and "length rs = length hs"
proof -
  from mapE_Inr [OF assms]
  have l: "list_all2 (\<lambda>x y. index_relation (dict_of_enumerate lst) x = Inr y) hs rs" .
  then show "length rs = length hs" by (simp add: list_all2_lengthD)
  from l show "relations_in_range (length lst) rs"
    by (induction rule: list_all2_induct)
      (auto simp add: relations_in_range_def dest: index_relation_in_range)
qed

lemma assemble_batch_Inr:
  assumes "assemble_batch ext self hs toks fill = Inr b"
  shows "entity b = list_of_set ext toks"
    and "relations_in_range (length (entity b)) (hyponymy_relation b)"
    and "hyponymy_relation_raw b = hs"
    and "length (hyponymy_relation b) = length hs"
    and "non_hyponymy_relation b = None"
proof -
  from assms obtain mat rs where
    rs: "mapE (index_relation (dict_of_enumerate (list_of_set ext toks))) hs = Inr rs"
    and b: "b = \<lparr> embedding = mat, entity = list_of_set ext toks, hyponymy_relation = rs,
               hyponymy_relation_raw = hs,
               entity_sampled = (if verbose self then Some fill else None),
               non_hyponymy_relation = None, non_hyponymy_relation_raw = None \<rparr>"
    unfolding assemble_batch_def Let_def bindE_Inr_iff by blast
  from b show "entity b = list_of_set ext toks" "hyponymy_relation_raw b = hs"
    "non_hyponymy_relation b = None" by simp_all
  from mapE_index_relation_in_range [OF rs] b
  show "relations_in_range (length (entity b)) (hyponymy_relation b)"
    "length (hyponymy_relation b) = length hs" by simp_all
qed

lemma create_batch_Inr:
  assumes "create_batch_from_hyponymy_samples ext self g hs = (Inr b, g')"
  shows "\<exists>fill. set (entity b) = set (list_of_set ext (set_update (tokens_of_samples hs) fill))
           \<and> entity b = list_of_set ext (set_update (tokens_of_samples hs) fill)"
    and "relations_in_range (length (entity b)) (hyponymy_relation b)"
    and "hyponymy_relation_raw b = hs"
    and "length (hyponymy_relation b) = length hs"
    and "non_hyponymy_relation b = None"
proof -
  from assms obtain fill where
    a: "assemble_batch ext self hs (set_update (tokens_of_samples hs) fill) fill = Inr b"
    unfolding create_batch_from_hyponymy_samples_def Let_def
    by (auto split: prod.splits sum.splits)
  from assemble_batch_Inr [OF a]
  show "\<exists>fill. set (entity b) = set (list_of_set ext (set_update (tokens_of_samples hs) fill))
           \<and> entity b = list_of_set ext (set_update (tokens_of_samples hs) fill)"
    and "relations_in_range (length (entity b)) (hyponymy_relation b)"
    and "hyponymy_relation_raw b = hs"
    and "length (hyponymy_relation b) = length hs"
    and "non_hyponymy_relation b = None"
    by auto
qed

lemma create_batch_invariant:
  assumes ord: "set_order_ok ext"
    and "create_batch_from_hyponymy_samples ext self g hs = (Inr b, g')"
  shows "batch_invariant b"
proof -
  from create_batch_Inr [OF assms(2)] obtain fill where
    e: "entity b = list_of_set ext (set_update (tokens_of_samples hs) fill)"
    and r: "relations_in_range (length (entity b)) (hyponymy_relation b)"
    and n: "non_hyponymy_relation b = None"
    by blast
  have "distinct (set_update (tokens_of_samples hs) fill)"
    by (simp add: set_update_props tokens_of_samples_props)
  with ord e have "distinct (entity b)"
    unfolding set_order_ok_def by simp
  with r n show ?thesis unfolding batch_invariant_def by simp
qed

lemma relations_in_range_filter:
  "relations_in_range n rs \<Longrightarrow> relations_in_range n (filter P rs)"
  unfolding relations_in_range_def by (simp add: list_all_iff)

lemma relations_in_range_subset:
  "relations_in_range n rs \<Longrightarrow> set rs' \<subseteq> set rs \<Longrightarrow> relations_in_range n rs'"
  unfolding relations_in_range_def by (auto simp add: list_all_iff)

lemma split_fields:
  "entity (split_hyponymy_samples_and_non_hyponymy_samples b) = entity b"
  "set (hyponymy_relation (split_hyponymy_samples_and_non_hyponymy_samples b))
     \<subseteq> set (hyponymy_relation b)"
  "\<exists>n. non_hyponymy_relation (split_hyponymy_samples_and_non_hyponymy_samples b) = Some n
       \<and> set n \<subseteq> set (hyponymy_relation b)"
  unfolding split_hyponymy_samples_and_non_hyponymy_samples_def split_loop_filter
  by (auto dest: set_zip_leftD)

lemma split_invariant:
  assumes "batch_invariant b"
  shows "batch_invariant (split_hyponymy_samples_and_non_hyponymy_samples b)"
proof -
  let ?b = "split_hyponymy_samples_and_non_hyponymy_samples b"
  from assms have d: "distinct (entity b)"
    and r: "relations_in_range (length (entity b)) (hyponymy_relation b)"
    unfolding batch_invariant_def by simp_all
  from split_fields(3) [of b] obtain n where
    n: "non_hyponymy_relation ?b = Some n" "set n \<subseteq> set (hyponymy_relation b)" by blast
  have "relations_in_range (length (entity b)) (hyponymy_relation ?b)"
    using r split_fields(2) by (rule relations_in_range_subset)
  moreover have "relations_in_range (length (entity b)) n"
    using r n(2) by (rule relations_in_range_subset)
  ultimately show ?thesis
    unfolding batch_invariant_def using d n(1) by (simp add: split_fields(1))
qed

lemma nh_batch_of_chunk_invariant:
  assumes ord: "set_order_ok ext"
    and "nh_batch_of_chunk ext self g hs = (Inr b, g')"
  shows "batch_invariant b"
proof -
  from assms(2) obtain g1 hs' b0 where
    c: "create_batch_from_hyponymy_samples ext self g1 hs' = (Inr b0, g')"
    and b: "b = (if split_hyponymy_and_non_hyponymy self
                 then split_hyponymy_samples_and_non_hyponymy_samples b0 else b0)"
    unfolding nh_batch_of_chunk_def Let_def
    by (auto split: prod.splits sum.splits)
  from create_batch_invariant [OF ord c] have "batch_invariant b0" .
  with b show ?thesis by (simp add: split_invariant)
qed

lemma getitem_invariant_aux:
  assumes "getitem ext self ds g idx = Some y"
  shows "set_order_ok ext \<longrightarrow> (\<forall>b g'. y = (Inr b, g') \<longrightarrow> batch_invariant b)"
  using assms
proof (induction rule: getitem.raw_induct [rotated 1, consumes 1])
  case (1 getitem' ext self ds g idx y)
  show ?case
  proof (cases "length (encodable_samples ext
             (py_slice ds (hyponymy_batch_size self * idx)
                (hyponymy_batch_size self * (idx + 1)))) = 0")
    case True
    with 1(2) have "getitem' ext self ds g (idx + 1) = Some y" by (simp add: Let_def)
    from 1(1) [OF this] show ?thesis .
  next
    case False
    with 1(2) have "create_batch_from_hyponymy_samples ext self g (encodable_samples ext
             (py_slice ds (hyponymy_batch_size self * idx)
                (hyponymy_batch_size self * (idx + 1)))) = y" by (simp add: Let_def)
    then show ?thesis by (auto intro: create_batch_invariant)
  qed
qed

lemma getitem_invariant:
  assumes "set_order_ok ext" and "getitem ext self ds g idx = Some (Inr b, g')"
  shows "batch_invariant b"
  using getitem_invariant_aux [OF assms(2)] assms(1) by blast

lemma nh_getitem_invariant_aux:
  assumes "nh_getitem ext self ds g idx = Some y"
  shows "set_order_ok ext \<longrightarrow> (\<forall>b g'. y = (Inr b, g') \<longrightarrow> batch_invariant b)"
  using assms
proof (induction rule: nh_getitem.raw_induct [rotated 1, consumes 1])
  case (1 getitem' ext self ds g idx y)
  show ?case
  proof (cases "length (encodable_samples ext
             (py_slice ds (hyponymy_batch_size self * idx)
                (hyponymy_batch_size self * (idx + 1)))) = 0")
    case True
    with 1(2) have "getitem' ext self ds g (idx + 1) = Some y" by (simp add: Let_def)
    from 1(1) [OF this] show ?thesis .
  next
    case False
    with 1(2) have "nh_batch_of_chunk ext self g (encodable_samples ext
             (py_slice ds (hyponymy_batch_size self * idx)
                (hyponymy_batch_size self * (idx + 1)))) = y" by (simp add: Let_def)
    then show ?thesis by (auto intro: nh_batch_of_chunk_invariant)
  qed
qed

lemma nh_getitem_invariant:
  assumes "set_order_ok ext" and "nh_getitem ext self ds g idx = Some (Inr b, g')"
  shows "batch_invariant b"
  using nh_getitem_invariant_aux [OF assms(2)] assms(1) by blast

lemma iter_loop_invariant:
  assumes "set_order_ok ext" and "list_all batch_invariant yielded"
    and "iter_loop ext self g chunks yielded = ((bs, e), g')"
  shows "list_all batch_invariant bs"
  using assms(2,3)
proof (induction chunks arbitrary: g yielded)
  case Nil
  then show ?case by simp
next
  case (Cons c chunks)
  show ?case
  proof (cases "length (encodable_samples ext c) = 0")
    case True
    with Cons.prems(2) have "iter_loop ext self g chunks yielded = ((bs, e), g')"
      by (simp add: Let_def)
    from Cons.IH [OF Cons.prems(1) this] show ?thesis .
  next
    case False
    obtain r g1 where c: "create_batch_from_hyponymy_samples ext self g (encodable_samples ext c) = (r, g1)"
      by (cases "create_batch_from_hyponymy_samples ext self g (encodable_samples ext c)")
    show ?thesis
    proof (cases r)
      case (Inl err)
      with False c Cons.prems(2) have "bs = yielded" by (simp add: Let_def)
      with Cons.prems(1) show ?thesis by simp
    next
      case (Inr batch)
      with False c Cons.prems(2)
      have l: "iter_loop ext self g1 chunks (yielded @ [batch]) = ((bs, e), g')"
        by (simp add: Let_def)
      from c Inr have "create_batch_from_hyponymy_samples ext self g (encodable_samples ext c)
          = (Inr batch, g1)" by simp
      from create_batch_invariant [OF assms(1) this] have "batch_invariant batch" .
      with Cons.prems(1) have "list_all batch_invariant (yielded @ [batch])" by simp
      from Cons.IH [OF this l] show ?thesis .
    qed
  qed
qed

lemma nh_iter_loop_invariant:
  assumes "set_order_ok ext" and "list_all batch_invariant yielded"
    and "nh_iter_loop ext self g chunks yielded = ((bs, e), g')"
  shows "list_all batch_invariant bs"
  using assms(2,3)
proof (induction chunks arbitrary: g yielded)
  case Nil
  then show ?case by simp
next
  case (Cons c chunks)
  show ?case
  proof (cases "length (encodable_samples ext c) = 0")
    case True
    with Cons.prems(2) have "nh_iter_loop ext self g chunks yielded = ((bs, e), g')"
      by (simp add: Let_def)
    from Cons.IH [OF Cons.prems(1) this] show ?thesis .
  next
    case False
    obtain r g1 where c: "nh_batch_of_chunk ext self g (encodable_samples ext c) = (r, g1)"
      by (cases "nh_batch_of_chunk ext self g (encodable_samples ext c)")
    show ?thesis
    proof (cases r)
      case (Inl err)
      with False c Cons.prems(2) have "bs = yielded" by (simp add: Let_def)
      with Cons.prems(1) show ?thesis by simp
    next
      case (Inr batch)
      with False c Cons.prems(2)
      have l: "nh_iter_loop ext self g1 chunks (yielded @ [batch]) = ((bs, e), g')"
        by (simp add: Let_def)
      from c Inr have "nh_batch_of_chunk ext self g (encodable_samples ext c)
          = (Inr batch, g1)" by simp
      from nh_batch_of_chunk_invariant [OF assms(1) this] have "batch_invariant batch" .
      with Cons.prems(1) have "list_all batch_invariant (yielded @ [batch])" by simp
      from Cons.IH [OF this l] show ?thesis .
    qed
  qed
qed

lemma example_order_ok: "set_order_ok example_collaborators"
  unfolding set_order_ok_def example_collaborators_def by simp

lemma nh_getitem_example: "nh_getitem example_collaborators
         (nh_self 3 2 3 1 1 None ''hyponym'' True True True False BasicTaxonomy)
         example_hyponymy_dataset () 0
   = Some (Inr \<lparr>embedding = [[1], [1], [1]], entity = [''a'', ''b'', ''c''],
       hyponymy_relation = [(1, 0, 1)],
       hyponymy_relation_raw =
         [\<lparr>hyponym = ''a'', hypernym = ''b'', distance = 1\<rparr>],
       entity_sampled = None, non_hyponymy_relation = Some [(1, 2, - 1)],
       non_hyponymy_relation_raw =
         Some [\<lparr>hyponym = ''c'', hypernym = ''b'', distance = - 1\<rparr>]\<rparr>, ())"
  by code_simp

text \<open>
  Claim C4. Every batch that \<open>_create_batch_from_hyponymy_samples\<close>, \<open>__getitem__\<close> or
  \<open>__iter__\<close> of either dataset class hands out satisfies the batch invariant: its entity
  list has no duplicates, and the hypernym index and the hyponym index of every relation
  triple (in the hyponymy list and, after a split, in the non-hyponymy list) are below the
  number of entities. This holds for every behaviour of the collaborators, as long as
  listing a set rearranges its members.
\<close>

theorem emitted_batches_satisfy_invariant:
  assumes "set_order_ok ext"
  shows "(create_batch_from_hyponymy_samples ext self g hs = (Inr b_create, g_create) \<longrightarrow> batch_invariant b_create)
    \<and> (getitem ext self ds g idx = Some (Inr b_get, g_get) \<longrightarrow> batch_invariant b_get)
    \<and> (nh_getitem ext nh_self' ds g idx = Some (Inr b_nh, g_nh) \<longrightarrow> batch_invariant b_nh)
    \<and> (iter_loop ext self g chunks [] = ((bs_iter, e_iter), g_iter) \<longrightarrow> list_all batch_invariant bs_iter)
    \<and> (nh_iter_loop ext nh_self' g chunks [] = ((bs_nhiter, e_nhiter), g_nhiter)
          \<longrightarrow> list_all batch_invariant bs_nhiter)"
proof (intro conjI impI)
  assume "create_batch_from_hyponymy_samples ext self g hs = (Inr b_create, g_create)"
  from create_batch_invariant [OF assms this] show "batch_invariant b_create" .
next
  assume "getitem ext self ds g idx = Some (Inr b_get, g_get)"
  from getitem_invariant [OF assms this] show "batch_invariant b_get" .
next
  assume "nh_getitem ext nh_self' ds g idx = Some (Inr b_nh, g_nh)"
  from nh_getitem_invariant [OF assms this] show "batch_invariant b_nh" .
next
  assume "iter_loop ext self g chunks [] = ((bs_iter, e_iter), g_iter)"
  from iter_loop_invariant [OF assms _ this] show "list_all batch_invariant bs_iter" by simp
next
  assume "nh_iter_loop ext nh_self' g chunks [] = ((bs_nhiter, e_nhiter), g_nhiter)"
  from nh_iter_loop_invariant [OF assms _ this] show "list_all batch_invariant bs_nhiter" by simp
qed

theorem emitted_batches_satisfy_invariant_witness:
  "set_order_ok example_collaborators
   \<and> nh_getitem example_collaborators
         (nh_self 3 2 3 1 1 None ''hyponym'' True True True False BasicTaxonomy)
         example_hyponymy_dataset () 0
     = Some (Inr \<lparr>embedding = [[1], [1], [1]], entity = [''a'', ''b'', ''c''],
         hyponymy_relation = [(1, 0, 1)],
         hyponymy_relation_raw =
           [\<lparr>hyponym = ''a'', hypernym = ''b'', distance = 1\<rparr>],
         entity_sampled = None, non_hyponymy_relation = Some [(1, 2, - 1)],
         non_hyponymy_relation_raw =
           Some [\<lparr>hyponym = ''c'', hypernym = ''b'', distance = - 1\<rparr>]\<rparr>, ())
   \<and> batch_invariant \<lparr>embedding = [[1], [1], [1]], entity = [''a'', ''b'', ''c''],
         hyponymy_relation = [(1, 0, 1)],
         hyponymy_relation_raw =
           [\<lparr>hyponym = ''a'', hypernym = ''b'', distance = 1\<rparr>],
         entity_sampled = None, non_hyponymy_relation = Some [(1, 2, - 1)],
         non_hyponymy_relation_raw =
           Some [\<lparr>hyponym = ''c'', hypernym = ''b'', distance = - 1\<rparr>]\<rparr>"
  using emitted_batches_satisfy_invariant [OF example_order_ok,
      where nh_self' = "nh_self 3 2 3 1 1 None ''hyponym'' True True True False BasicTaxonomy"
        and ds = example_hyponymy_dataset and g = "()" and idx = 0 and g_nh = "()"
        and b_nh = "\<lparr>embedding = [[1], [1], [1]], entity = [''a'', ''b'', ''c''],
         hyponymy_relation = [(1, 0, 1)],
         hyponymy_relation_raw =
           [\<lparr>hyponym = ''a'', hypernym = ''b'', distance = 1\<rparr>],
         entity_sampled = None, non_hyponymy_relation = Some [(1, 2, - 1)],
         non_hyponymy_relation_raw =
           Some [\<lparr>hyponym = ''c'', hypernym = ''b'', distance = - 1\<rparr>]\<rparr>"]
    nh_getitem_example example_order_ok
  by blast


text \<open>
  Claim C1 (the number of entities of a batch is the embedding batch size whenever the
  vocabulary is large enough) does not hold for the code. The fillers are drawn from the
  whole vocabulary, which contains the entities of the relations: with a vocabulary of
  three entities, an embedding batch size of three and the pair \<open>(a, b)\<close>, a draw of the
  index of \<open>a\<close> adds nothing to the set, and the batch has two entities.
\<close>

theorem filler_collision_gives_short_batch:
  "fst (create_batch_from_hyponymy_samples example_collaborators example_dataset ()
         [\<lparr> hyponym = ''a'', hypernym = ''b'', distance = 1 \<rparr>])
     = Inr \<lparr> embedding = [[1], [1]], entity = [''a'', ''b''],
             hyponymy_relation = [(1, 0, 1)],
             hyponymy_relation_raw =
               [\<lparr>hyponym = ''a'', hypernym = ''b'', distance = 1\<rparr>],
             entity_sampled = None, non_hyponymy_relation = None,
             non_hyponymy_relation_raw = None \<rparr>
   \<and> embedding_batch_size example_dataset = 3
   \<and> n_embeddings example_dataset = 3
   \<and> length [''a'', ''b''] = 2"
  by code_simp


text \<open>When the drawn fillers are distinct and none of them is an entity of the relations,
  the batch has exactly \<open>embedding_batch_size\<close> entities.\<close>

lemma create_batch_full_when_fillers_fresh:
  assumes ord: "set_order_ok ext"
    and fill: "sample_fillers ext self g (tokens_of_samples hs) = (Inr fill, gf)"
    and fresh: "distinct fill" "set fill \<inter> set (tokens_of_samples hs) = {}"
    and len: "int (length fill) = embedding_batch_size self - int (length (tokens_of_samples hs))"
    and b: "create_batch_from_hyponymy_samples ext self g hs = (Inr b, g')"
  shows "int (length (entity b)) = embedding_batch_size self"
proof -
  from b fill have a: "assemble_batch ext self hs (set_update (tokens_of_samples hs) fill) fill = Inr b"
    unfolding create_batch_from_hyponymy_samples_def Let_def by simp
  have d: "distinct (set_update (tokens_of_samples hs) fill)"
    by (simp add: set_update_props tokens_of_samples_props)
  from assemble_batch_Inr(1) [OF a] ord d
  have "distinct (entity b)" "set (entity b) = set (tokens_of_samples hs) \<union> set fill"
    unfolding set_order_ok_def by (simp_all add: set_update_props)
  then have "length (entity b) = card (set (tokens_of_samples hs) \<union> set fill)"
    using distinct_card by metis
  also have "\<dots> = card (set (tokens_of_samples hs)) + card (set fill)"
    using fresh(2) by (simp add: card_Un_disjoint Int_commute)
  also have "\<dots> = length (tokens_of_samples hs) + length fill"
    using fresh(1) tokens_of_samples_props(2) by (simp add: distinct_card)
  finally show ?thesis using len by simp
qed

subsection \<open>The constructors of the losses\<close>

lemma select_func_distance_unknown:
  "name \<notin> set recognised_metric_names \<Longrightarrow> select_func_distance name = Inl AttributeError"
  unfolding recognised_metric_names_def select_func_distance_def by simp

lemma select_func_distance_known:
  "name \<in> set recognised_metric_names \<Longrightarrow> name \<noteq> ''batchnorm-mse''
     \<Longrightarrow> \<exists>f. select_func_distance name = Inr f"
  unfolding recognised_metric_names_def select_func_distance_def by auto

lemma code_length_loss_init_unknown:
  "name \<notin> set recognised_metric_names
     \<Longrightarrow> code_length_loss_init s n c name r = Inl AttributeError"
  unfolding code_length_loss_init_def by (simp add: select_func_distance_unknown bindE_Inl)

lemma code_length_loss_init_known:
  assumes "name \<in> set recognised_metric_names" "name \<noteq> ''batchnorm-mse''"
  shows "\<exists>self. code_length_loss_init s n c name r = Inr self \<and> distance_metric self = name"
proof -
  from select_func_distance_known [OF assms] obtain f where "select_func_distance name = Inr f"
    by blast
  then show ?thesis unfolding code_length_loss_init_def by (simp add: bindE_Inr)
qed

lemma hyponymy_score_loss_init_unknown:
  "name \<notin> set recognised_metric_names
     \<Longrightarrow> hyponymy_score_loss_init s n c name r = Inl AttributeError"
  unfolding hyponymy_score_loss_init_def
  by (simp add: code_length_loss_init_unknown bindE_Inl)

lemma hyponymy_score_loss_init_known:
  assumes "name \<in> set recognised_metric_names" "name \<noteq> ''batchnorm-mse''"
  shows "\<exists>self. hyponymy_score_loss_init s n c name r = Inr self"
proof -
  from code_length_loss_init_known [OF assms, of s False c r]
  obtain base where "code_length_loss_init s False c name r = Inr base" by blast
  then show ?thesis unfolding hyponymy_score_loss_init_def by (simp add: bindE_Inr)
qed

lemma entailment_probability_loss_init_returns:
  "\<exists>self. entailment_probability_loss_init s r = Inr self"
  unfolding entailment_probability_loss_init_def
  by (rule hyponymy_score_loss_init_known) (simp_all add: recognised_metric_names_def)

lemma call_func_distance_ignores_name:
  "call_func_distance F (self\<lparr>distance_metric := name\<rparr>) u v = call_func_distance F self u v"
  unfolding call_func_distance_def by simp

lemma forward_ignores_name:
  "code_length_forward F (self\<lparr>distance_metric := name\<rparr>) t l
     = code_length_forward F self t l"
  "code_length_diff_forward F (self\<lparr>distance_metric := name\<rparr>) t l'
     = code_length_diff_forward F self t l'"
  "hyponymy_score_forward F (hself\<lparr>distance_metric := name\<rparr>) t l'
     = hyponymy_score_forward F hself t l'"
  "lca_length_forward F (hself\<lparr>distance_metric := name\<rparr>) t l'
     = lca_length_forward F hself t l'"
  "entailment_probability_forward F (hself\<lparr>distance_metric := name\<rparr>) t l'
     = entailment_probability_forward F hself t l'"
  unfolding code_length_forward_def code_length_diff_forward_def hyponymy_score_forward_def
    lca_length_forward_def entailment_probability_forward_def apply_distance_def
    code_length_targets_def code_length_diff_targets_def hyponymy_score_targets_def
    lca_length_targets_def
  by (simp_all add: call_func_distance_ignores_name)


text \<open>
  Claim C9 (an unsupported metric name is refused by the constructor, every supported
  name is accepted, and no forward pass dispatches on the name) fails for one name. The
  lemmas above show the rest of the claim: a name that the constructor does not test for
  raises, each of the ten other names it tests for gives a loss object, and the forward
  passes do not read the name. The eleventh name, \<open>batchnorm-mse\<close>, is tested for and
  treated as supported (its branch goes on to build a batch normalisation layer), but its
  branch reads a method that the class does not define, so the construction raises
  \<open>AttributeError\<close> for every choice of the other arguments.
\<close>

theorem batchnorm_mse_cannot_be_constructed:
  "''batchnorm-mse'' \<in> set recognised_metric_names
   \<and> code_length_loss_init scale' normalize_code_length' coef ''batchnorm-mse'' reduction'
       = Inl AttributeError
   \<and> hyponymy_score_loss_init scale' normalize_hyponymy_score' coef ''batchnorm-mse'' reduction'
       = Inl AttributeError"
  unfolding hyponymy_score_loss_init_def code_length_loss_init_def select_func_distance_def
    recognised_metric_names_def
  by (simp add: bindE_Inl)

subsection \<open>Tensor operations on batches of regular shape\<close>

text \<open>
  The shapes that broadcasting, concatenation and the conversion of intensities to length
  probabilities give when their arguments have the shapes that the scoring functions
  build, and the elements of the results. The values are real numbers: equalities
  between them are equalities of exact arithmetic.
\<close>

lemma broadcast_rev_same: "broadcast_rev ns ns = Inr ns"
  by (induction ns) (simp_all add: bindE_Inr)

lemma broadcast_rev_Nil2: "broadcast_rev ms [] = Inr ms"
  by (cases ms) simp_all

lemma broadcast_dims_same: "broadcast_dims ds ds = Inr ds"
  unfolding broadcast_dims_def by (simp add: broadcast_rev_same bindE_Inr)

lemma broadcast_dims_last: "broadcast_dims (L @ [n]) [n] = Inr (L @ [n])"
  unfolding broadcast_dims_def by (simp add: broadcast_rev_Nil2 bindE_Inr)

lemma broadcast_dims_last': "broadcast_dims [n] (L @ [n]) = Inr (L @ [n])"
  unfolding broadcast_dims_def by (simp add: bindE_Inr)

lemma broadcast_dims_scalar: "broadcast_dims [] ds = Inr ds" "broadcast_dims ds [] = Inr ds"
  unfolding broadcast_dims_def by (simp_all add: bindE_Inr broadcast_rev_Nil2)

lemma bproj_same: "in_range ds idx \<Longrightarrow> bproj ds idx = idx"
proof -
  assume "in_range ds idx"
  then have l: "list_all2 (\<lambda>i n. i < n) idx ds" unfolding in_range_def .
  then have len: "length idx = length ds" by (rule list_all2_lengthD)
  from l have "map2 (\<lambda>n i. if n = 1 then 0 else i) ds idx = idx"
    by (induction rule: list_all2_induct) auto
  with len show ?thesis unfolding bproj_def by simp
qed

lemma bproj_last: "k < n \<Longrightarrow> bproj [n] (I @ [k]) = [k]"
  unfolding bproj_def by auto

lemma bproj_Nil: "bproj [] idx = []"
  unfolding bproj_def by simp

lemma in_range_snoc: "in_range (L @ [n]) (I @ [k]) = (in_range L I \<and> k < n)"
proof (cases "length I = length L")
  case True
  then show ?thesis unfolding in_range_def by (simp add: list_all2_append)
next
  case False
  then have "\<not> list_all2 (\<lambda>i n. i < n) (I @ [k]) (L @ [n])"
    and "\<not> list_all2 (\<lambda>i n. i < n) I L"
    by (auto dest: list_all2_lengthD)
  then show ?thesis unfolding in_range_def by simp
qed

lemma in_range_Nil: "in_range [] idx = (idx = [])"
  unfolding in_range_def by simp

lemma in_range_Cons: "in_range (n # ns) (i # idx) = (i < n \<and> in_range ns idx)"
  unfolding in_range_def by simp

lemma tbin_same:
  assumes "dims a = ds" "dims b = ds"
  shows "\<exists>r. tbin f a b = Inr r \<and> dims r = ds
           \<and> (\<forall>idx. in_range ds idx \<longrightarrow> elem r idx = f (elem a idx) (elem b idx))"
  unfolding tbin_def using assms
  by (simp add: broadcast_dims_same bindE_Inr bproj_same)

lemma tbin_last:
  assumes "dims a = L @ [n]" "dims b = [n]"
  shows "\<exists>r. tbin f a b = Inr r \<and> dims r = L @ [n]
           \<and> (\<forall>I k. in_range L I \<and> k < n \<longrightarrow> elem r (I @ [k]) = f (elem a (I @ [k])) (elem b [k]))"
  unfolding tbin_def using assms
  by (simp add: broadcast_dims_last bindE_Inr bproj_same bproj_last in_range_snoc)

lemma cat_last_regular:
  assumes "dims a = L @ [m]" "dims b = L @ [n]"
  shows "\<exists>r. cat_last a b = Inr r \<and> dims r = L @ [m + n]
           \<and> (\<forall>I k. k < m + n \<longrightarrow>
                elem r (I @ [k]) = (if k < m then elem a (I @ [k]) else elem b (I @ [k - m])))"
proof (cases "dims a = [0]")
  case True
  with assms have "L = []" "m = 0" by auto
  with assms True show ?thesis unfolding cat_last_def by simp
next
  case False
  note na = this
  show ?thesis
  proof (cases "dims b = [0]")
    case True
    with assms have "L = []" "n = 0" by auto
    with assms na True show ?thesis unfolding cat_last_def by simp
  next
    case False
    with na assms show ?thesis unfolding cat_last_def by simp
  qed
qed

lemma prod_pad_shift:
  "prod_list (map (\<lambda>j. 1 - (if j < 1 then 0 else q (j - 1))) [0..<Suc k])
     = prod_list (map (\<lambda>j. 1 - (q j :: real)) [0..<k])"
  by (simp add: map_upt_Suc del: upt_Suc)

lemma intensity_to_probability_regular:
  assumes d: "dims t = L @ [D]"
  shows "\<exists>r. intensity_to_probability t = Inr r \<and> dims r = L @ [D + 1]
           \<and> (\<forall>I k. in_range L I \<and> k \<le> D \<longrightarrow>
                elem r (I @ [k]) = spec_length_probability (\<lambda>n. elem t (I @ [n])) D k)"
proof -
  have p0: "dims (full (butlast (dims t) @ [1]) 0) = L @ [1]"
    and p1: "dims (full (butlast (dims t) @ [1]) 1) = L @ [1]"
    using d by (simp_all add: full_def)
  from cat_last_regular [OF p0 d] obtain c1 where
    c1: "cat_last (full (butlast (dims t) @ [1]) 0) t = Inr c1"
    and dc1: "dims c1 = L @ [1 + D]"
    and ec1: "\<And>I k. k < 1 + D \<Longrightarrow>
          elem c1 (I @ [k]) = (if k < 1 then 0 else elem t (I @ [k - 1]))"
    by (auto simp add: full_def)
  from cat_last_regular [OF d p1] obtain c2 where
    c2: "cat_last t (full (butlast (dims t) @ [1]) 1) = Inr c2"
    and dc2: "dims c2 = L @ [D + 1]"
    and ec2: "\<And>I k. k < D + 1 \<Longrightarrow>
          elem c2 (I @ [k]) = (if k < D then elem t (I @ [k]) else 1)"
    by (auto simp add: full_def)
  let ?cp = "cumprod_last (tmap (\<lambda>x. 1 - x) c1)"
  have dcp: "dims ?cp = L @ [D + 1]"
    using dc1 by (simp add: cumprod_last_def tmap_def)
  have ecp: "elem ?cp (I @ [k]) = prod_list (map (\<lambda>j. 1 - elem t (I @ [j])) [0..<k])"
    if "k \<le> D" for I k
  proof -
    have "elem ?cp (I @ [k])
        = prod_list (map (\<lambda>j. 1 - elem c1 (I @ [j])) [0..<Suc k])"
      by (simp add: cumprod_last_def tmap_def del: upt_Suc)
    also have "\<dots> = prod_list (map (\<lambda>j. 1 - (if j < 1 then 0 else elem t (I @ [j - 1]))) [0..<Suc k])"
    proof (intro arg_cong [where f = prod_list] map_cong refl)
      fix j assume "j \<in> set [0..<Suc k]"
      with that have "j < 1 + D" by auto
      from ec1 [OF this] show "1 - elem c1 (I @ [j])
          = 1 - (if j < 1 then 0 else elem t (I @ [j - 1]))" by simp
    qed
    also have "\<dots> = prod_list (map (\<lambda>j. 1 - elem t (I @ [j])) [0..<k])"
      by (rule prod_pad_shift)
    finally show ?thesis .
  qed
  from tbin_same [OF dcp dc2, of "\<lambda>x y. x * y"] obtain r where
    r: "tmul ?cp c2 = Inr r" and dr: "dims r = L @ [D + 1]"
    and er: "\<And>idx. in_range (L @ [D + 1]) idx \<Longrightarrow> elem r idx = elem ?cp idx * elem c2 idx"
    unfolding tmul_def by blast
  have "elem r (I @ [k]) = spec_length_probability (\<lambda>n. elem t (I @ [n])) D k"
    if "in_range L I" "k \<le> D" for I k
  proof -
    from that have "in_range (L @ [D + 1]) (I @ [k])" by (simp add: in_range_snoc)
    from er [OF this] ecp [OF that(2)] ec2 [of k I] that(2)
    show ?thesis by (simp add: spec_length_probability_def)
  qed
  with r dr c1 c2 show ?thesis
    unfolding intensity_to_probability_def Let_def by (simp add: bindE_Inr)
qed

subsection \<open>The soft code length\<close>

text \<open>
  The sum that the specification names the soft code length: its length probabilities
  add up to 1, it obeys a recursion on the first digit, and for digit-0 probabilities in
  \<open>[0, 1]\<close> it lies between 0 and \<open>n_digits\<close>.
\<close>

lemma spec_length_probability_Suc:
  "spec_length_probability q (Suc D) (Suc k)
     = (1 - q 0) * spec_length_probability (\<lambda>n. q (Suc n)) D k"
  by (simp add: spec_length_probability_def map_upt_Suc del: upt_Suc)

lemma spec_length_probability_0: "spec_length_probability q (Suc D) 0 = q 0"
  by (simp add: spec_length_probability_def)

lemma spec_length_probability_total:
  "sum_list (map (spec_length_probability q D) [0..<D + 1]) = 1"
proof (induction D arbitrary: q)
  case 0
  show ?case by (simp add: spec_length_probability_def)
next
  case (Suc D)
  have "sum_list (map (spec_length_probability q (Suc D)) [0..<Suc (D + 1)])
      = q 0 + sum_list (map (\<lambda>k. (1 - q 0) * spec_length_probability (\<lambda>n. q (Suc n)) D k)
                           [0..<D + 1])"
    by (simp add: map_upt_Suc spec_length_probability_Suc spec_length_probability_0
        del: upt_Suc)
  also have "\<dots> = q 0 + (1 - q 0) * sum_list (map (spec_length_probability (\<lambda>n. q (Suc n)) D)
                           [0..<D + 1])"
    by (simp only: sum_list_const_mult)
  also have "\<dots> = 1" by (simp only: Suc.IH) simp
  finally show ?case by simp
qed

lemma spec_soft_code_length_0: "spec_soft_code_length q 0 = 0"
  by (simp add: spec_soft_code_length_def)

lemma spec_soft_code_length_Suc:
  "spec_soft_code_length q (Suc D)
     = (1 - q 0) * (1 + spec_soft_code_length (\<lambda>n. q (Suc n)) D)"
proof -
  let ?q = "\<lambda>n. q (Suc n)"
  have "spec_soft_code_length q (Suc D)
      = sum_list (map (\<lambda>k. real (Suc k) * ((1 - q 0) * spec_length_probability ?q D k))
                    [0..<D + 1])"
    unfolding spec_soft_code_length_def
    by (simp add: map_upt_Suc spec_length_probability_Suc del: upt_Suc)
  also have "\<dots> = sum_list (map (\<lambda>k. (1 - q 0) * (real k * spec_length_probability ?q D k)
                                  + (1 - q 0) * spec_length_probability ?q D k) [0..<D + 1])"
    by (intro arg_cong [where f = sum_list] map_cong refl) (simp add: algebra_simps)
  also have "\<dots> = (1 - q 0) * spec_soft_code_length ?q D
                 + (1 - q 0) * sum_list (map (spec_length_probability ?q D) [0..<D + 1])"
    unfolding spec_soft_code_length_def
    by (simp only: sum_list_addf sum_list_const_mult)
  also have "\<dots> = (1 - q 0) * (1 + spec_soft_code_length ?q D)"
    unfolding spec_length_probability_total by (simp add: algebra_simps)
  finally show ?thesis .
qed

lemma spec_soft_code_length_bounds:
  assumes "\<forall>d<D. 0 \<le> q d \<and> q d \<le> 1"
  shows "0 \<le> spec_soft_code_length q D \<and> spec_soft_code_length q D \<le> real D"
  using assms
proof (induction D arbitrary: q)
  case 0
  show ?case by (simp add: spec_soft_code_length_0)
next
  case (Suc D)
  let ?q = "\<lambda>n. q (Suc n)"
  from Suc.prems have "\<forall>d<D. 0 \<le> ?q d \<and> ?q d \<le> 1" by auto
  from Suc.IH [OF this] have ih: "0 \<le> spec_soft_code_length ?q D"
    "spec_soft_code_length ?q D \<le> real D" by simp_all
  from Suc.prems have q0: "0 \<le> 1 - q 0" "1 - q 0 \<le> 1" by auto
  have "0 \<le> (1 - q 0) * (1 + spec_soft_code_length ?q D)"
    using q0(1) ih(1) by simp
  moreover have "(1 - q 0) * (1 + spec_soft_code_length ?q D) \<le> 1 * (1 + real D)"
    using q0 ih by (intro mult_mono) simp_all
  ultimately show ?case by (simp add: spec_soft_code_length_Suc)
qed

lemma spec_soft_code_length_all_zero:
  assumes "\<forall>d<D. q d = 0"
  shows "spec_soft_code_length q D = real D"
  using assms
proof (induction D arbitrary: q)
  case 0
  show ?case by (simp add: spec_soft_code_length_0)
next
  case (Suc D)
  from Suc.prems have "\<forall>d<D. q (Suc d) = 0" and "q 0 = 0" by auto
  with Suc.IH [of "\<lambda>n. q (Suc n)"] show ?case by (simp add: spec_soft_code_length_Suc)
qed

lemma spec_soft_code_length_first_one:
  assumes "q 0 = 1"
  shows "spec_soft_code_length q D = 0"
  using assms by (cases D) (simp_all add: spec_soft_code_length_0 spec_soft_code_length_Suc)

text \<open>
  \<open>calc_soft_code_length\<close> on a batch of shape \<open>(n_batch, n_digits, n_ary)\<close> with
  \<open>n_digits \<noteq> 1\<close>: \<open>squeeze()\<close> keeps the digit dimension, and the function returns that sum
  for every entity (at the empty index when the batch has one entity).
\<close>

lemma entity_index_in_range: "b < B \<Longrightarrow> in_range (entity_index B B) (entity_index B b)"
  unfolding entity_index_def in_range_def by simp

lemma zero_digit_regular:
  assumes d: "dims P = [B, D, A]" and A: "0 < A" and D: "D \<noteq> 1"
  shows "\<exists>sel. index_select_last P 0 = Inr sel
           \<and> dims (squeeze sel) = entity_index B B @ [D]
           \<and> (\<forall>b n. b < B \<longrightarrow> elem (squeeze sel) (entity_index B b @ [n]) = elem P [b, n, 0])"
proof -
  let ?sel = "\<lparr> dims = [B, D, 1], elem = (\<lambda>idx. elem P (butlast idx @ [0])) \<rparr>"
  have s: "index_select_last P 0 = Inr ?sel"
    using d A unfolding index_select_last_def by simp
  have ds: "dims (squeeze ?sel) = entity_index B B @ [D]"
    using D unfolding squeeze_def entity_index_def by simp
  have "elem (squeeze ?sel) (entity_index B b @ [n]) = elem P [b, n, 0]" if "b < B" for b n
    using D that unfolding squeeze_def entity_index_def by auto
  with s ds show ?thesis by simp
qed

lemma sum_last_snoc:
  assumes "dims t = L @ [n]"
  shows "dims (sum_last t) = L"
    and "elem (sum_last t) I = sum_list (map (\<lambda>k. elem t (I @ [k])) [0..<n])"
  using assms unfolding sum_last_def by simp_all

lemma arange_props: "dims (arange n) = [n]" "elem (arange n) [k] = real k"
  unfolding arange_def by simp_all

lemma calc_soft_code_length_regular:
  assumes d: "dims P = [B, D, A]" and A: "0 < A" and D: "D \<noteq> 1"
  shows "\<exists>r. calc_soft_code_length P = Inr r \<and> dims r = entity_index B B
           \<and> (\<forall>b<B. elem r (entity_index B b)
                      = spec_soft_code_length (\<lambda>n. elem P [b, n, 0]) D)"
proof -
  let ?L = "entity_index B B"
  from zero_digit_regular [OF d A D] obtain sel where
    sel: "index_select_last P 0 = Inr sel"
    and dz: "dims (squeeze sel) = ?L @ [D]"
    and ez: "\<And>b n. b < B \<Longrightarrow> elem (squeeze sel) (entity_index B b @ [n]) = elem P [b, n, 0]"
    by blast
  have sl: "shape_last (squeeze sel) = Inr D"
    unfolding shape_last_def using dz by simp
  from intensity_to_probability_regular [OF dz] obtain pr where
    pr: "intensity_to_probability (squeeze sel) = Inr pr"
    and dpr: "dims pr = ?L @ [D + 1]"
    and epr: "\<And>I k. in_range ?L I \<Longrightarrow> k \<le> D \<Longrightarrow>
          elem pr (I @ [k]) = spec_length_probability (\<lambda>n. elem (squeeze sel) (I @ [n])) D k"
    by blast
  from tbin_last [OF dpr arange_props(1), of "\<lambda>x y. x * y"] obtain m where
    m: "tmul pr (arange (D + 1)) = Inr m"
    and dm: "dims m = ?L @ [D + 1]"
    and em: "\<And>I k. in_range ?L I \<Longrightarrow> k < D + 1 \<Longrightarrow>
          elem m (I @ [k]) = elem pr (I @ [k]) * real k"
    unfolding tmul_def by (auto simp add: arange_props)
  from m have m': "tmul pr (arange (Suc D)) = Inr m" by simp
  have r: "calc_soft_code_length P = Inr (sum_last m)"
    unfolding calc_soft_code_length_def Let_def
    by (simp add: sel sl pr m' bindE_Inr)
  have "elem (sum_last m) (entity_index B b) = spec_soft_code_length (\<lambda>n. elem P [b, n, 0]) D"
    if b: "b < B" for b
  proof -
    have ir: "in_range ?L (entity_index B b)" using b by (rule entity_index_in_range)
    have f: "(\<lambda>n. elem (squeeze sel) (entity_index B b @ [n])) = (\<lambda>n. elem P [b, n, 0])"
      using ez [OF b] by (simp add: fun_eq_iff)
    have "elem (sum_last m) (entity_index B b)
        = sum_list (map (\<lambda>k. elem m (entity_index B b @ [k])) [0..<D + 1])"
      by (rule sum_last_snoc(2) [OF dm])
    also have "\<dots> = sum_list (map (\<lambda>k. real k
                 * spec_length_probability (\<lambda>n. elem P [b, n, 0]) D k) [0..<D + 1])"
    proof (intro arg_cong [where f = sum_list] map_cong refl)
      fix k assume "k \<in> set [0..<D + 1]"
      then have k: "k < D + 1" "k \<le> D" by auto
      from em [OF ir k(1)] epr [OF ir k(2)] f
      show "elem m (entity_index B b @ [k])
          = real k * spec_length_probability (\<lambda>n. elem P [b, n, 0]) D k"
        by simp
    qed
    finally show ?thesis unfolding spec_soft_code_length_def .
  qed
  with r sum_last_snoc(1) [OF dm] show ?thesis by simp
qed

lemma calc_soft_code_length_bounded:
  assumes d: "dims P = [B, D, A]" and A: "0 < A" and D: "D \<noteq> 1"
    and valid: "\<forall>b<B. \<forall>n<D. 0 \<le> elem P [b, n, 0] \<and> elem P [b, n, 0] \<le> 1"
  shows "\<exists>r. calc_soft_code_length P = Inr r \<and> dims r = entity_index B B
           \<and> (\<forall>b<B. 0 \<le> elem r (entity_index B b) \<and> elem r (entity_index B b) \<le> real D
                  \<and> ((\<forall>n<D. elem P [b, n, 0] = 0) \<longrightarrow> elem r (entity_index B b) = real D)
                  \<and> (elem P [b, 0, 0] = 1 \<longrightarrow> elem r (entity_index B b) = 0))"
proof -
  from calc_soft_code_length_regular [OF d A D] obtain r where
    r: "calc_soft_code_length P = Inr r" "dims r = entity_index B B"
    and e: "\<And>b. b < B \<Longrightarrow> elem r (entity_index B b)
                      = spec_soft_code_length (\<lambda>n. elem P [b, n, 0]) D"
    by blast
  have "0 \<le> elem r (entity_index B b) \<and> elem r (entity_index B b) \<le> real D
          \<and> ((\<forall>n<D. elem P [b, n, 0] = 0) \<longrightarrow> elem r (entity_index B b) = real D)
          \<and> (elem P [b, 0, 0] = 1 \<longrightarrow> elem r (entity_index B b) = 0)" if b: "b < B" for b
  proof -
    from valid b have "\<forall>n<D. 0 \<le> elem P [b, n, 0] \<and> elem P [b, n, 0] \<le> 1" by simp
    from spec_soft_code_length_bounds [OF this]
      spec_soft_code_length_all_zero [of D "\<lambda>n. elem P [b, n, 0]"]
      spec_soft_code_length_first_one [of "\<lambda>n. elem P [b, n, 0]" D]
    show ?thesis unfolding e [OF b] by simp
  qed
  with r show ?thesis by blast
qed

subsection \<open>The soft code length of codes with one digit\<close>

text \<open>
  Claim C6 (for every valid code distribution the soft code length lies between 0 and
  \<open>n_digits\<close>, is \<open>n_digits\<close> when every digit-0 probability is 0, and is 0 when the first
  digit-0 probability is 1) fails for codes with a single digit. \<open>squeeze()\<close> then removes the
  digit dimension instead of leaving it, and \<open>n_digits\<close> is read from the batch dimension:
  for two entities whose only digit has the distribution \<open>(0, 1)\<close> the function returns one
  number for the whole batch, 2, where the length of each code is at most 1; for a single
  such entity it raises \<open>IndexError\<close>. All values of this computation are 0, 1 or 2. For
  every other number of digits lemma \<open>calc_soft_code_length_bounded\<close> gives the bounds and
  the two extreme values in exact arithmetic.
\<close>

theorem soft_code_length_of_one_digit_codes:
  "map_sum id (\<lambda>t. (dims t, elem t [])) (calc_soft_code_length (constant_codes 2 1 0))
     = Inr ([], 2)
   \<and> map_sum id dims (calc_soft_code_length (constant_codes 1 1 0)) = Inl IndexError"
  by code_simp


subsection \<open>Forward passes that do not clamp\<close>

text \<open>
  In exact arithmetic the soft code length of a code with a positive first digit-0
  probability is below \<open>n_digits\<close>, so it is below \<open>n_digits\<close> for every clamped batch.
\<close>

lemma spec_soft_code_length_below:
  assumes v: "\<forall>d<D. 0 \<le> q d \<and> q d \<le> 1" and D: "0 < D" and q0: "0 < q 0"
  shows "spec_soft_code_length q D < real D"
proof -
  from D obtain D' where D': "D = Suc D'" by (cases D) simp_all
  let ?q = "\<lambda>n. q (Suc n)"
  from v D' have "\<forall>d<D'. 0 \<le> ?q d \<and> ?q d \<le> 1" by auto
  from spec_soft_code_length_bounds [OF this]
  have r: "0 \<le> spec_soft_code_length ?q D'" "spec_soft_code_length ?q D' \<le> real D'"
    by simp_all
  from q0 have "1 - q 0 < 1" by simp
  with r(1) have "(1 - q 0) * (1 + spec_soft_code_length ?q D') < 1 * (1 + spec_soft_code_length ?q D')"
    by (intro mult_strict_right_mono) simp_all
  with r(2) show ?thesis unfolding D' spec_soft_code_length_Suc by simp
qed

lemma clamp_props:
  "dims (clamp t lo hi) = dims t"
  "elem (clamp t lo hi) idx = min (max (elem t idx) lo) hi"
  unfolding clamp_def tmap_def by simp_all

lemma calc_soft_code_length_of_clamped_below:
  assumes d: "dims P = [B, D, A]" and A: "0 < A" and D: "1 < D"
    and lo: "0 < lo" "lo \<le> hi" "hi \<le> 1"
  shows "\<exists>r. calc_soft_code_length (clamp P lo hi) = Inr r \<and> dims r = entity_index B B
           \<and> (\<forall>b<B. elem r (entity_index B b) < real D)"
proof -
  let ?P = "clamp P lo hi"
  have d': "dims ?P = [B, D, A]" using d by (simp add: clamp_props)
  from D have D1: "D \<noteq> 1" by simp
  from calc_soft_code_length_regular [OF d' A D1] obtain r where
    r: "calc_soft_code_length ?P = Inr r" "dims r = entity_index B B"
    and e: "\<And>b. b < B \<Longrightarrow> elem r (entity_index B b)
                      = spec_soft_code_length (\<lambda>n. elem ?P [b, n, 0]) D"
    by blast
  have "elem r (entity_index B b) < real D" if b: "b < B" for b
  proof -
    have "\<forall>n<D. 0 \<le> elem ?P [b, n, 0] \<and> elem ?P [b, n, 0] \<le> 1"
      using lo by (auto simp add: clamp_props min_def max_def)
    moreover have "0 < D" using D by simp
    moreover have "0 < elem ?P [b, 0, 0]" using lo by (auto simp add: clamp_props min_def max_def)
    ultimately show ?thesis unfolding e [OF b] by (rule spec_soft_code_length_below)
  qed
  with r show ?thesis by blast
qed

text \<open>
  Claim C2 (every forward pass clamps the probabilities into \<open>[1e-5, 1 - 1e-5]\<close> before
  the scoring function) fails for three of the five losses. On the batch of two entities
  with two digits of distribution \<open>(0, 1)\<close>, the forward passes of
  \<open>CodeLengthPredictionLoss\<close> and \<open>LowestCommonAncestorLengthPredictionLoss\<close> predict the
  length 2 exactly, which is the value of the scoring function at the probabilities 0 and
  1. The forward pass of \<open>CodeLengthDiffPredictionLoss\<close> scores the same unclamped tensor.
  All values of these computations are 0, 1 or 2.
\<close>

theorem forward_without_clamp_sees_exact_zero:
  "map_sum id (\<lambda>(y_pred, y_true). (dims y_pred, elem y_pred [0], elem y_pred [1]))
     (code_length_targets
        \<lparr> scale = 1, normalize_code_length = False, normalize_coef_for_gt = 1,
          distance_metric = ''scaled-mse'', func_distance = ScaledMse, reduction = ''mean'' \<rparr>
        (constant_codes 2 2 0) [(0, 2), (1, 2)])
     = Inr ([2], 2, 2)
   \<and> map_sum id (\<lambda>(y_pred, y_true). (dims y_pred, elem y_pred [0], elem y_pred [1]))
     (code_length_diff_targets
        \<lparr> scale = 1, normalize_code_length = False, normalize_coef_for_gt = 1,
          distance_metric = ''scaled-mse'', func_distance = ScaledMse, reduction = ''mean'' \<rparr>
        (constant_codes 2 2 0) [(0, 1, 0), (1, 0, 0)])
     = Inr ([2], 0, 0)
   \<and> map_sum id (\<lambda>(y_pred, y_true). (dims y_pred, elem y_pred [0], elem y_pred [1]))
     (lca_length_targets
        \<lparr> scale = 1, normalize_code_length = False, normalize_coef_for_gt = 1,
          distance_metric = ''scaled-mse'', func_distance = ScaledMse, reduction = ''mean'',
          normalize_hyponymy_score = False \<rparr>
        (constant_codes 2 2 0) [(0, 1, 2), (1, 0, 2)])
     = Inr ([2], 2, 2)"
  by code_simp


subsection \<open>The soft hyponymy score\<close>
























end
